theory Spec2Isabelle
  imports Complex_Main
begin

section \<open>Workout log: the values of the program\<close>

text \<open>
  The program is \<^verbatim>\<open>src/script.js\<close>: the classes \<^verbatim>\<open>Workout\<close>, \<^verbatim>\<open>Running\<close>,
  \<^verbatim>\<open>Cycling\<close> and the controller \<^verbatim>\<open>App\<close>. It runs on the browser platform, which
  is modelled only as far as the program observes it.
\<close>

subsection \<open>Numbers\<close>

text \<open>
  A JavaScript number is a binary64 value: a finite value, one of the two infinities, or
  NaN. A finite value is carried as the real it denotes. The sign of zero is not
  modelled.
\<close>

datatype number = Fin real | PosInf | NegInf | NaN

text \<open>\<^verbatim>\<open>Number.isFinite(inp)\<close>\<close>

fun isFinite :: "number \<Rightarrow> bool" where
  "isFinite (Fin r) = True"
| "isFinite PosInf = False"
| "isFinite NegInf = False"
| "isFinite NaN = False"

text \<open>\<^verbatim>\<open>inp > 0\<close>\<close>

fun gt0 :: "number \<Rightarrow> bool" where
  "gt0 (Fin r) = (0 < r)"
| "gt0 PosInf = True"
| "gt0 NegInf = False"
| "gt0 NaN = False"

text \<open>
  Rounding a real to binary64, to nearest with ties to even. The finite values are the
  \<open>m * 2 ^ e\<close> with \<open>\<bar>m\<bar> < 2 ^ 53\<close> and \<open>- 1074 \<le> e \<le> 971\<close>. For \<open>x\<close> in the binade
  \<open>2 ^ k \<le> \<bar>x\<bar> < 2 ^ (k + 1)\<close> the unit in the last place is \<open>2 ^ (k - 52)\<close>, and never
  less than \<open>2 ^ - 1074\<close> (subnormal values, underflow to zero); a result that reaches
  \<open>2 ^ 1024\<close> overflows to an infinity.
\<close>

definition round_half_even :: "real \<Rightarrow> int" where
  "round_half_even x =
     (let f = \<lfloor>x\<rfloor> in
      if x - of_int f < 1 / 2 then f
      else if 1 / 2 < x - of_int f then f + 1
      else if even f then f else f + 1)"

definition binary64_exponent :: "real \<Rightarrow> int" where
  "binary64_exponent x = max (\<lfloor>log 2 \<bar>x\<bar>\<rfloor> - 52) (- 1074)"

definition round64 :: "real \<Rightarrow> number" where
  "round64 x =
     (if x = 0 then Fin 0
      else
        let e = binary64_exponent x;
            y = of_int (round_half_even (x / 2 powi e)) * 2 powi e
        in if 2 ^ 1024 \<le> y then PosInf
           else if y \<le> - (2 ^ 1024) then NegInf
           else Fin y)"

text \<open>
  The operator \<^verbatim>\<open>/\<close> on numbers: the quotient of two finite values is rounded to
  binary64. Division by zero gives an infinity (NaN for \<^verbatim>\<open>0 / 0\<close>), an infinity
  divided by an infinity gives NaN, a finite value divided by an infinity gives zero.
\<close>

fun js_div :: "number \<Rightarrow> number \<Rightarrow> number" where
  "js_div NaN y = NaN"
| "js_div x NaN = NaN"
| "js_div (Fin a) (Fin b) =
     (if b \<noteq> 0 then round64 (a / b)
      else if a = 0 then NaN
      else if 0 < a then PosInf else NegInf)"
| "js_div (Fin a) PosInf = Fin 0"
| "js_div (Fin a) NegInf = Fin 0"
| "js_div PosInf (Fin b) = (if 0 \<le> b then PosInf else NegInf)"
| "js_div NegInf (Fin b) = (if 0 \<le> b then NegInf else PosInf)"
| "js_div PosInf PosInf = NaN"
| "js_div PosInf NegInf = NaN"
| "js_div NegInf PosInf = NaN"
| "js_div NegInf NegInf = NaN"

subsection \<open>Dates and decimal strings\<close>

text \<open>
  A \<^verbatim>\<open>Date\<close> object, seen through the three methods that reach it: \<^verbatim>\<open>getMonth()\<close>
  and \<^verbatim>\<open>getDate()\<close> (called by \<^verbatim>\<open>_setDescription\<close>) and \<^verbatim>\<open>toJSON()\<close> (called by
  \<^verbatim>\<open>JSON.stringify\<close>), which gives the ISO text of the instant.
\<close>

record Date =
  getMonth :: nat
  getDate :: nat
  toJSON :: string

text \<open>
  The decimal text of a natural number, as \<^verbatim>\<open>n + ''\<close> gives it; \<open>digit_char\<close> is
  applied to single digits only.
\<close>

definition digit_char :: "nat \<Rightarrow> char" where
  "digit_char d = ''0123456789'' ! d"

function to_string_nat :: "nat \<Rightarrow> string" where
  "to_string_nat n =
     (if n < 10 then [digit_char n]
      else to_string_nat (n div 10) @ [digit_char (n mod 10)])"
  by pat_completeness auto
termination
  by (relation "measure (\<lambda>n. n)") auto

declare to_string_nat.simps [simp del]

text \<open>\<^verbatim>\<open>s.slice(-10)\<close>: the last ten characters, all of \<open>s\<close> when it is shorter.\<close>

definition slice_last10 :: "string \<Rightarrow> string" where
  "slice_last10 s = drop (length s - 10) s"

subsection \<open>Run-time values\<close>

text \<open>
  An object is the list of its own properties in creation order. The program holds class
  instances and, after a restore, whatever \<^verbatim>\<open>JSON.parse\<close> returned, in the same
  field, so both are values of one type.
\<close>

datatype jsval =
    VUndefined
  | VNull
  | VBool bool
  | VNum number
  | VStr string
  | VDate Date
  | VArr "jsval list"
  | VObj "(string \<times> jsval) list"

datatype error = TypeError | SyntaxError

text \<open>
  Reading a property \<^verbatim>\<open>v.k\<close>, for the names the program reads (\<^verbatim>\<open>id\<close>,
  \<^verbatim>\<open>type\<close>, \<^verbatim>\<open>coords\<close>, \<^verbatim>\<open>pace\<close>, ...): none of them is a built-in property of
  arrays, strings, numbers, booleans or dates, so only an object can hold one; reading
  from \<^verbatim>\<open>undefined\<close> or \<^verbatim>\<open>null\<close> throws.
\<close>

fun read_prop :: "jsval \<Rightarrow> string \<Rightarrow> jsval" where
  "read_prop (VObj ps) k = (case map_of ps k of None \<Rightarrow> VUndefined | Some v \<Rightarrow> v)"
| "read_prop v k = VUndefined"

fun get_prop :: "jsval \<Rightarrow> string \<Rightarrow> error + jsval" where
  "get_prop VUndefined k = Inl TypeError"
| "get_prop VNull k = Inl TypeError"
| "get_prop v k = Inr (read_prop v k)"

text \<open>
  Whether turning \<open>v\<close> into a string, as a template literal does with \<^verbatim>\<open>${v}\<close>,
  throws. It does for an object with an own property \<^verbatim>\<open>toString\<close> (which hides the
  inherited method; values here are never functions) and for an array that holds such a
  value, since an array joins the strings of its elements.
\<close>

fun to_string_throws :: "jsval \<Rightarrow> bool" where
  "to_string_throws (VObj ps) = (map_of ps ''toString'' \<noteq> None)"
| "to_string_throws (VArr xs) = list_ex to_string_throws xs"
| "to_string_throws v = False"

section \<open>The classes Workout, Running and Cycling\<close>

definition months :: "string list" where
  "months = [''January'', ''February'', ''March'', ''April'', ''May'', ''June'', ''July'',
     ''August'', ''September'', ''October'', ''November'', ''December'']"

text \<open>\<^verbatim>\<open>c.toUpperCase()\<close> on one ASCII character.\<close>

definition toUpperCase :: "char \<Rightarrow> char" where
  "toUpperCase c =
     (case map_of (zip ''abcdefghijklmnopqrstuvwxyz'' ''ABCDEFGHIJKLMNOPQRSTUVWXYZ'') c of
        None \<Rightarrow> c
      | Some u \<Rightarrow> u)"

text \<open>
  \<^verbatim>\<open>`${type[0].toUpperCase()}${type.slice(1)} on ${months[getMonth()]} ${getDate()}`\<close>.
  Both classes set \<^verbatim>\<open>type\<close> to a non-empty literal, so the empty case (where
  JavaScript throws) is never evaluated. An index outside \<^verbatim>\<open>months\<close> reads
  \<^verbatim>\<open>undefined\<close>, printed as such.
\<close>

fun capitalize :: "string \<Rightarrow> string" where
  "capitalize [] = []"
| "capitalize (c # cs) = toUpperCase c # cs"

definition setDescription :: "string \<Rightarrow> Date \<Rightarrow> string" where
  "setDescription type d =
     capitalize type @ '' on ''
       @ (if getMonth d < length months then months ! getMonth d else ''undefined'')
       @ '' '' @ to_string_nat (getDate d)"

text \<open>
  The field initialisers and constructor of \<^verbatim>\<open>Workout\<close>: \<^verbatim>\<open>date = new Date()\<close>,
  \<^verbatim>\<open>id = (Date.now() + '').slice(-10)\<close>, then \<^verbatim>\<open>coords\<close>, \<^verbatim>\<open>distance\<close>,
  \<^verbatim>\<open>duration\<close>. The two clock reads are inputs: \<open>d\<close> is the new \<^verbatim>\<open>Date\<close>,
  \<open>now\<close> the milliseconds \<^verbatim>\<open>Date.now()\<close> returns.
\<close>

definition Workout :: "Date \<Rightarrow> nat \<Rightarrow> jsval \<Rightarrow> number \<Rightarrow> number \<Rightarrow> (string \<times> jsval) list" where
  "Workout d now coords distance duration =
     [(''date'', VDate d),
      (''id'', VStr (slice_last10 (to_string_nat now))),
      (''coords'', coords),
      (''distance'', VNum distance),
      (''duration'', VNum duration)]"

text \<open>\<^verbatim>\<open>calculatePace\<close>: \<^verbatim>\<open>this.duration / this.distance\<close>\<close>

definition calculatePace :: "number \<Rightarrow> number \<Rightarrow> number" where
  "calculatePace distance duration = js_div duration distance"

text \<open>\<^verbatim>\<open>calculateSpeed\<close>: \<^verbatim>\<open>this.distance / this.duration / 60\<close>\<close>

definition calculateSpeed :: "number \<Rightarrow> number \<Rightarrow> number" where
  "calculateSpeed distance duration = js_div (js_div distance duration) (Fin 60)"

definition Running :: "Date \<Rightarrow> nat \<Rightarrow> jsval \<Rightarrow> number \<Rightarrow> number \<Rightarrow> number \<Rightarrow> jsval" where
  "Running d now coords distance duration cadence =
     VObj (Workout d now coords distance duration @
       [(''type'', VStr ''running''),
        (''cadence'', VNum cadence),
        (''pace'', VNum (calculatePace distance duration)),
        (''description'', VStr (setDescription ''running'' d))])"

definition Cycling :: "Date \<Rightarrow> nat \<Rightarrow> jsval \<Rightarrow> number \<Rightarrow> number \<Rightarrow> number \<Rightarrow> jsval" where
  "Cycling d now coords distance duration elevation =
     VObj (Workout d now coords distance duration @
       [(''type'', VStr ''cycling''),
        (''elevation'', VNum elevation),
        (''speed'', VNum (calculateSpeed distance duration)),
        (''description'', VStr (setDescription ''cycling'' d))])"

section \<open>Persistence: JSON text and the storage cell\<close>

text \<open>
  The value a JSON text denotes. \<^verbatim>\<open>localStorage\<close> holds text; the cell under the key
  \<^verbatim>\<open>'workouts'\<close> is modelled by what \<^verbatim>\<open>JSON.parse\<close> makes of its content: a text
  that denotes a value, or a text that is not JSON at all (\<^verbatim>\<open>{\<close>, \<^verbatim>\<open>undefined\<close>, ...).
  A cell that was never written, or was removed, is \<open>None\<close>.
\<close>

datatype json =
    JNull
  | JBool bool
  | JNum real
  | JStr string
  | JArr "json list"
  | JObj "(string \<times> json) list"

datatype item = Doc json | Malformed

text \<open>
  \<^verbatim>\<open>JSON.stringify(v)\<close>. \<open>None\<close> is the result \<^verbatim>\<open>undefined\<close>. A date is written as its
  \<^verbatim>\<open>toJSON()\<close> string, a finite number as a decimal that reads back as the same
  number, a number that is not finite as \<^verbatim>\<open>null\<close>; in an array
  \<^verbatim>\<open>undefined\<close> becomes \<^verbatim>\<open>null\<close>, in an object a property holding \<^verbatim>\<open>undefined\<close> is
  left out.
\<close>

fun array_element :: "json option \<Rightarrow> json" where
  "array_element None = JNull"
| "array_element (Some j) = j"

fun own_properties :: "(string \<times> json option) list \<Rightarrow> (string \<times> json) list" where
  "own_properties [] = []"
| "own_properties ((k, None) # ps) = own_properties ps"
| "own_properties ((k, Some j) # ps) = (k, j) # own_properties ps"

primrec JSON_stringify :: "jsval \<Rightarrow> json option" where
  "JSON_stringify VUndefined = None"
| "JSON_stringify VNull = Some JNull"
| "JSON_stringify (VBool b) = Some (JBool b)"
| "JSON_stringify (VNum x) = Some (case x of Fin r \<Rightarrow> JNum r | _ \<Rightarrow> JNull)"
| "JSON_stringify (VStr s) = Some (JStr s)"
| "JSON_stringify (VDate d) = Some (JStr (toJSON d))"
| "JSON_stringify (VArr xs) = Some (JArr (map array_element (map JSON_stringify xs)))"
| "JSON_stringify (VObj ps) = Some (JObj (own_properties (map (map_prod id JSON_stringify) ps)))"

text \<open>The value \<^verbatim>\<open>JSON.parse\<close> builds for a JSON text (no reviver is passed).\<close>

primrec of_json :: "json \<Rightarrow> jsval" where
  "of_json JNull = VNull"
| "of_json (JBool b) = VBool b"
| "of_json (JNum r) = VNum (Fin r)"
| "of_json (JStr s) = VStr s"
| "of_json (JArr xs) = VArr (map of_json xs)"
| "of_json (JObj ps) = VObj (map (map_prod id of_json) ps)"

text \<open>
  \<^verbatim>\<open>JSON.parse(localStorage.getItem('workouts'))\<close>. \<^verbatim>\<open>getItem\<close> returns \<^verbatim>\<open>null\<close> for
  an absent key, which \<^verbatim>\<open>JSON.parse\<close> reads as the text \<^verbatim>\<open>null\<close>. A text that is not
  JSON makes it throw a SyntaxError.
\<close>

fun JSON_parse :: "item option \<Rightarrow> error + jsval" where
  "JSON_parse None = Inr VNull"
| "JSON_parse (Some Malformed) = Inl SyntaxError"
| "JSON_parse (Some (Doc j)) = Inr (of_json j)"

text \<open>The truth value of \<open>v\<close> in a condition, as in \<^verbatim>\<open>if (!data) return\<close>.\<close>

fun truthy :: "jsval \<Rightarrow> bool" where
  "truthy VUndefined = False"
| "truthy VNull = False"
| "truthy (VBool b) = b"
| "truthy (VNum (Fin r)) = (r \<noteq> 0)"
| "truthy (VNum NaN) = False"
| "truthy (VNum x) = True"
| "truthy (VStr s) = (s \<noteq> [])"
| "truthy v = True"

section \<open>The controller App\<close>

text \<open>
  The Leaflet map is outside the program; of it the model keeps the centre of the view
  and the workouts that were given a marker. It accepts whatever coordinates it is
  handed.
\<close>

record leaflet =
  view :: jsval
  markers :: "jsval list"

record latlng =
  lat :: number
  lng :: number

text \<open>
  The state the program reads and writes: the private fields \<^verbatim>\<open>#map\<close>, \<^verbatim>\<open>#mapEvent\<close>
  and \<^verbatim>\<open>#workouts\<close>, the storage cell \<^verbatim>\<open>'workouts'\<close>, the alerts shown so far, whether
  the form is hidden, and the list items after the form (newest first).
\<close>

record world =
  lmap :: "leaflet option"
  mapEvent :: "latlng option"
  workouts :: jsval
  localStorage :: "item option"
  alerts :: "string list"
  form_hidden :: bool
  list_items :: "jsval list"

text \<open>
  The form's fields as \<^verbatim>\<open>_newWorkout\<close> reads them: the selected type, and the number that
  unary \<^verbatim>\<open>+\<close> makes of each text field.
\<close>

record form =
  inputType :: string
  inputDistance :: number
  inputDuration :: number
  inputCadence :: number
  inputElevation :: number

definition alert :: "string \<Rightarrow> world \<Rightarrow> world" where
  "alert msg w = w\<lparr>alerts := alerts w @ [msg]\<rparr>"

text \<open>Sequencing: a thrown error ends the operation.\<close>

fun and_then :: "error + 'a \<Rightarrow> ('a \<Rightarrow> error + 'b) \<Rightarrow> error + 'b" where
  "and_then (Inl e) f = Inl e"
| "and_then (Inr x) f = f x"

text \<open>\<^verbatim>\<open>xs.forEach(f)\<close>\<close>

fun forEach :: "('a \<Rightarrow> world \<Rightarrow> error + world) \<Rightarrow> 'a list \<Rightarrow> world \<Rightarrow> error + world" where
  "forEach f [] w = Inr w"
| "forEach f (x # xs) w = and_then (f x w) (forEach f xs)"

text \<open>
  \<^verbatim>\<open>_renderWorkoutMarker\<close>: reads \<^verbatim>\<open>workout.coords\<close>, adds the marker to \<^verbatim>\<open>#map\<close>,
  which must exist, and builds the popup from \<^verbatim>\<open>`${workout.type}-popup`\<close> and
  \<^verbatim>\<open>`... ${workout.description}`\<close>.
\<close>

definition renderWorkoutMarker :: "jsval \<Rightarrow> world \<Rightarrow> error + world" where
  "renderWorkoutMarker workout w =
     and_then (get_prop workout ''coords'') (\<lambda>c.
       case lmap w of
         None \<Rightarrow> Inl TypeError
       | Some m \<Rightarrow>
           if list_ex to_string_throws
                [read_prop workout ''type'', read_prop workout ''description'']
           then Inl TypeError
           else Inr (w\<lparr>lmap := Some (m\<lparr>markers := markers m @ [workout]\<rparr>)\<rparr>))"

text \<open>
  \<^verbatim>\<open>_renderWorkout\<close>: builds the list item and inserts it right after the form. The
  first template prints \<^verbatim>\<open>type\<close>, \<^verbatim>\<open>id\<close>, \<^verbatim>\<open>description\<close>, \<^verbatim>\<open>distance\<close> and
  \<^verbatim>\<open>duration\<close>; for a running entry the second calls \<^verbatim>\<open>workout.pace.toFixed(1)\<close>,
  which exists on numbers only, and prints \<^verbatim>\<open>cadence\<close>; for a cycling entry it prints
  \<^verbatim>\<open>speed\<close> and \<^verbatim>\<open>elevation\<close>.
\<close>

definition renderWorkout :: "jsval \<Rightarrow> world \<Rightarrow> error + world" where
  "renderWorkout workout w =
     and_then (get_prop workout ''type'') (\<lambda>t.
       if list_ex to_string_throws
            [t, read_prop workout ''id'', read_prop workout ''description'',
             read_prop workout ''distance'', read_prop workout ''duration'']
       then Inl TypeError
       else if t = VStr ''running'' then
         (case read_prop workout ''pace'' of
            VNum p \<Rightarrow>
              if to_string_throws (read_prop workout ''cadence'') then Inl TypeError
              else Inr (w\<lparr>list_items := workout # list_items w\<rparr>)
          | _ \<Rightarrow> Inl TypeError)
       else if t = VStr ''cycling'' then
         (if list_ex to_string_throws
               [read_prop workout ''speed'', read_prop workout ''elevation'']
          then Inl TypeError
          else Inr (w\<lparr>list_items := workout # list_items w\<rparr>))
       else Inr (w\<lparr>list_items := workout # list_items w\<rparr>))"

definition showForm :: "latlng \<Rightarrow> world \<Rightarrow> world" where
  "showForm mapEv w = w\<lparr>mapEvent := Some mapEv, form_hidden := False\<rparr>"

text \<open>
  \<^verbatim>\<open>_hideForm\<close>. It also empties the four text fields; the form's content is an
  argument of \<^verbatim>\<open>_newWorkout\<close> here, so that has no counterpart.
\<close>

definition hideForm :: "world \<Rightarrow> world" where
  "hideForm w = w\<lparr>form_hidden := True\<rparr>"

text \<open>
  \<^verbatim>\<open>_setLocalStorage\<close>. \<^verbatim>\<open>setItem\<close> turns its argument into a string, so the result
  \<^verbatim>\<open>undefined\<close> of \<^verbatim>\<open>JSON.stringify\<close> is stored as the text \<^verbatim>\<open>undefined\<close>, which is
  not JSON. The storage is taken to have room for the text.
\<close>

definition setLocalStorage :: "world \<Rightarrow> world" where
  "setLocalStorage w =
     w\<lparr>localStorage :=
        Some (case JSON_stringify (workouts w) of None \<Rightarrow> Malformed | Some j \<Rightarrow> Doc j)\<rparr>"

text \<open>\<^verbatim>\<open>_getLocalStorage\<close>\<close>

definition getLocalStorage :: "world \<Rightarrow> error + world" where
  "getLocalStorage w =
     and_then (JSON_parse (localStorage w)) (\<lambda>data.
       if \<not> truthy data then Inr w
       else (case data of
               VArr ws \<Rightarrow> forEach renderWorkout ws (w\<lparr>workouts := data\<rparr>)
             | _ \<Rightarrow> Inl TypeError))"

text \<open>\<^verbatim>\<open>const validInputs = (...inputs) => inputs.every(inp => Number.isFinite(inp))\<close>\<close>

definition validInputs :: "number list \<Rightarrow> bool" where
  "validInputs inputs = list_all isFinite inputs"

text \<open>\<^verbatim>\<open>const allPositive = (...inputs) => inputs.every(inp => inp > 0)\<close>\<close>

definition allPositive :: "number list \<Rightarrow> bool" where
  "allPositive inputs = list_all gt0 inputs"

text \<open>\<^verbatim>\<open>this.#workouts.push(workout)\<close>\<close>

definition push :: "jsval \<Rightarrow> world \<Rightarrow> error + world" where
  "push workout w =
     (case workouts w of
        VArr ws \<Rightarrow> Inr (w\<lparr>workouts := VArr (ws @ [workout])\<rparr>)
      | _ \<Rightarrow> Inl TypeError)"

text \<open>The tail of \<^verbatim>\<open>_newWorkout\<close>, from the push to the save.\<close>

definition addWorkout :: "jsval \<Rightarrow> world \<Rightarrow> error + world" where
  "addWorkout workout w =
     and_then (push workout w) (\<lambda>w1.
     and_then (renderWorkoutMarker workout w1) (\<lambda>w2.
     and_then (renderWorkout workout w2) (\<lambda>w3.
       Inr (setLocalStorage (hideForm w3)))))"

text \<open>
  \<^verbatim>\<open>_newWorkout\<close>, with the form's content \<open>f\<close> and the two clock reads of the
  constructor. The two \<^verbatim>\<open>if\<close> statements on \<^verbatim>\<open>type\<close> exclude each other; with any
  other type \<^verbatim>\<open>workout\<close> stays \<^verbatim>\<open>undefined\<close>. A failed check shows the alert and
  returns.
\<close>

definition newWorkout :: "form \<Rightarrow> Date \<Rightarrow> nat \<Rightarrow> world \<Rightarrow> error + world" where
  "newWorkout f d now w =
     (case mapEvent w of
        None \<Rightarrow> Inl TypeError
      | Some ll \<Rightarrow>
          if inputType f = ''running'' then
            (if \<not> validInputs [inputDistance f, inputDuration f, inputCadence f] \<or>
                \<not> allPositive [inputDistance f, inputDuration f, inputCadence f]
             then Inr (alert ''Inputs have to be positive numbers!'' w)
             else addWorkout
                    (Running d now (VArr [VNum (lat ll), VNum (lng ll)])
                       (inputDistance f) (inputDuration f) (inputCadence f)) w)
          else if inputType f = ''cycling'' then
            (if \<not> validInputs [inputDistance f, inputDuration f, inputElevation f] \<or>
                \<not> allPositive [inputDistance f, inputDuration f]
             then Inr (alert ''Inputs have to be positive numbers!'' w)
             else addWorkout
                    (Cycling d now (VArr [VNum (lat ll), VNum (lng ll)])
                       (inputDistance f) (inputDuration f) (inputElevation f)) w)
          else addWorkout VUndefined w)"

text \<open>
  The lookup in \<^verbatim>\<open>_moveToPopup\<close>: \<^verbatim>\<open>this.#workouts.find(w => w.id === id)\<close>, the first
  element whose \<^verbatim>\<open>id\<close> is the string \<open>i\<close>, or \<^verbatim>\<open>undefined\<close>.
\<close>

fun find_by_id :: "string \<Rightarrow> jsval list \<Rightarrow> error + jsval" where
  "find_by_id i [] = Inr VUndefined"
| "find_by_id i (w # ws) =
     and_then (get_prop w ''id'') (\<lambda>v. if v = VStr i then Inr w else find_by_id i ws)"

text \<open>
  \<^verbatim>\<open>_moveToPopup\<close>. The argument is \<^verbatim>\<open>dataset.id\<close> of the clicked list item, \<open>None\<close>
  when the click was outside every item.
\<close>

definition moveToPopup :: "string option \<Rightarrow> world \<Rightarrow> error + world" where
  "moveToPopup target w =
     (case target of
        None \<Rightarrow> Inr w
      | Some i \<Rightarrow>
          (case workouts w of
             VArr ws \<Rightarrow>
               and_then (find_by_id i ws) (\<lambda>workout.
                 case lmap w of
                   None \<Rightarrow> Inl TypeError
                 | Some m \<Rightarrow>
                     and_then (get_prop workout ''coords'') (\<lambda>c.
                       Inr (w\<lparr>lmap := Some (m\<lparr>view := c\<rparr>)\<rparr>)))
           | _ \<Rightarrow> Inl TypeError))"

text \<open>
  \<^verbatim>\<open>_loadMap\<close>, called by the platform with the user's position: creates the map and
  gives every workout a marker.
\<close>

definition loadMap :: "number \<Rightarrow> number \<Rightarrow> world \<Rightarrow> error + world" where
  "loadMap latitude longitude w =
     (let w1 = w\<lparr>lmap := Some \<lparr>view = VArr [VNum latitude, VNum longitude], markers = []\<rparr>\<rparr>
      in case workouts w1 of
           VArr ws \<Rightarrow> forEach renderWorkoutMarker ws w1
         | _ \<Rightarrow> Inl TypeError)"

text \<open>
  \<^verbatim>\<open>_getPosition\<close>: where \<^verbatim>\<open>navigator.geolocation\<close> exists, the argument
  \<^verbatim>\<open>this._alertMessage()\<close> is evaluated at once, which shows the alert.
\<close>

definition getPosition :: "bool \<Rightarrow> world \<Rightarrow> world" where
  "getPosition geolocation w =
     (if geolocation then alert ''Could not get your position.'' w else w)"

text \<open>A freshly loaded page over the storage cell \<open>cell\<close>, and \<^verbatim>\<open>new App()\<close> on it.\<close>

definition page :: "item option \<Rightarrow> world" where
  "page cell =
     \<lparr>lmap = None, mapEvent = None, workouts = VArr [], localStorage = cell,
      alerts = [], form_hidden = True, list_items = []\<rparr>"

definition new_App :: "bool \<Rightarrow> item option \<Rightarrow> error + world" where
  "new_App geolocation cell = getLocalStorage (getPosition geolocation (page cell))"

text \<open>
  \<^verbatim>\<open>reset\<close>: \<^verbatim>\<open>localStorage.removeItem('workouts')\<close>, then \<^verbatim>\<open>location.reload()\<close>, which
  runs the script again on a fresh page.
\<close>

definition removeItem :: "world \<Rightarrow> world" where
  "removeItem w = w\<lparr>localStorage := None\<rparr>"

definition reset :: "bool \<Rightarrow> world \<Rightarrow> error + world" where
  "reset geolocation w = new_App geolocation (localStorage (removeItem w))"

section \<open>Notions used by the properties\<close>

text \<open>
  The condition under which a submission is to be refused, in the words of the
  specification: a supplied numeric field is not finite, or the distance or the duration
  is \<open>\<le> 0\<close>, or (running only) the cadence is \<open>\<le> 0\<close>.
\<close>

definition not_finite :: "number \<Rightarrow> bool" where
  "not_finite x = (x = PosInf \<or> x = NegInf \<or> x = NaN)"

definition le0 :: "number \<Rightarrow> bool" where
  "le0 x = (case x of Fin r \<Rightarrow> r \<le> 0 | NegInf \<Rightarrow> True | _ \<Rightarrow> False)"

definition spec_invalid :: "form \<Rightarrow> bool" where
  "spec_invalid f =
     (if inputType f = ''running'' then
        not_finite (inputDistance f) \<or> not_finite (inputDuration f)
        \<or> not_finite (inputCadence f)
        \<or> le0 (inputDistance f) \<or> le0 (inputDuration f) \<or> le0 (inputCadence f)
      else
        not_finite (inputDistance f) \<or> not_finite (inputDuration f)
        \<or> not_finite (inputElevation f)
        \<or> le0 (inputDistance f) \<or> le0 (inputDuration f))"

text \<open>
  An entry as \<^verbatim>\<open>_newWorkout\<close> creates it: the class, the two clock reads, the clicked
  location and the three numbers of the form.
\<close>

datatype creation =
    NewRunning Date nat latlng number number number
  | NewCycling Date nat latlng number number number

fun entry :: "creation \<Rightarrow> jsval" where
  "entry (NewRunning d now ll distance duration cadence) =
     Running d now (VArr [VNum (lat ll), VNum (lng ll)]) distance duration cadence"
| "entry (NewCycling d now ll distance duration elevation) =
     Cycling d now (VArr [VNum (lat ll), VNum (lng ll)]) distance duration elevation"

fun created_at :: "creation \<Rightarrow> nat" where
  "created_at (NewRunning d now ll distance duration cadence) = now"
| "created_at (NewCycling d now ll distance duration elevation) = now"

fun created_date :: "creation \<Rightarrow> Date" where
  "created_date (NewRunning d now ll distance duration cadence) = d"
| "created_date (NewCycling d now ll distance duration elevation) = d"

fun entry_id :: "creation \<Rightarrow> string" where
  "entry_id c = slice_last10 (to_string_nat (created_at c))"

text \<open>
  A valid entry: the location is a pair of finite numbers and the form's numbers passed
  the checks of \<^verbatim>\<open>_newWorkout\<close>.
\<close>

fun valid_creation :: "creation \<Rightarrow> bool" where
  "valid_creation (NewRunning d now ll distance duration cadence) =
     (isFinite (lat ll) \<and> isFinite (lng ll)
      \<and> validInputs [distance, duration, cadence] \<and> allPositive [distance, duration, cadence])"
| "valid_creation (NewCycling d now ll distance duration elevation) =
     (isFinite (lat ll) \<and> isFinite (lng ll)
      \<and> validInputs [distance, duration, elevation] \<and> allPositive [distance, duration])"

text \<open>The derived metric of the entry, pace or speed, is a finite number.\<close>

fun finite_metric :: "creation \<Rightarrow> bool" where
  "finite_metric (NewRunning d now ll distance duration cadence) =
     isFinite (calculatePace distance duration)"
| "finite_metric (NewCycling d now ll distance duration elevation) =
     isFinite (calculateSpeed distance duration)"

text \<open>What \<^verbatim>\<open>_newWorkout\<close> constructs from the form \<open>f\<close> clicked at \<open>ll\<close>.\<close>

definition creation_of :: "form \<Rightarrow> Date \<Rightarrow> nat \<Rightarrow> latlng \<Rightarrow> creation" where
  "creation_of f d now ll =
     (if inputType f = ''running''
      then NewRunning d now ll (inputDistance f) (inputDuration f) (inputCadence f)
      else NewCycling d now ll (inputDistance f) (inputDuration f) (inputElevation f))"

text \<open>\<^verbatim>\<open>_renderWorkout\<close> does not throw on \<open>v\<close>.\<close>

definition renders :: "jsval \<Rightarrow> bool" where
  "renders v = (case renderWorkout v (page None) of Inl e \<Rightarrow> False | Inr w \<Rightarrow> True)"

text \<open>Leaving the page and opening it again: a new \<^verbatim>\<open>App\<close> over the same storage.\<close>

definition reopen :: "bool \<Rightarrow> error + world \<Rightarrow> error + world" where
  "reopen geolocation r = and_then r (\<lambda>w. new_App geolocation (localStorage w))"

text \<open>An entry with its \<^verbatim>\<open>Date\<close> object replaced by the date's ISO string.\<close>

fun date_as_string :: "jsval \<Rightarrow> jsval" where
  "date_as_string (VDate d) = VStr (toJSON d)"
| "date_as_string v = v"

fun with_date_as_string :: "jsval \<Rightarrow> jsval" where
  "with_date_as_string (VObj ps) = VObj (map (map_prod id date_as_string) ps)"
| "with_date_as_string v = v"

text \<open>The \<open>k\<close> low decimal digits of \<open>n\<close>, most significant first.\<close>

definition low_digits :: "nat \<Rightarrow> nat \<Rightarrow> string" where
  "low_digits k n = map (\<lambda>i. digit_char (n div 10 ^ i mod 10)) (rev [0..<k])"

text \<open>The workouts of an outcome; an error stays an error.\<close>

definition workouts_of :: "error + world \<Rightarrow> error + jsval" where
  "workouts_of r = map_sum id workouts r"

section \<open>Sample data\<close>

text \<open>
  The numbers are binary64 values; \<open>5854679515581645 / 2 ^ 50\<close> is the one that the text
  \<^verbatim>\<open>5.2\<close> denotes.
\<close>

definition sample_date :: Date where
  "sample_date = \<lparr>getMonth = 10, getDate = 2, toJSON = ''2026-11-02T19:20:00.000Z''\<rparr>"

definition sample_coords :: jsval where
  "sample_coords = VArr [VNum (Fin 45.75), VNum (Fin 16)]"

definition sample_click :: latlng where
  "sample_click = \<lparr>lat = Fin 45.75, lng = Fin 16\<rparr>"

text \<open>A page whose map has loaded and was clicked; nothing is logged or stored yet.\<close>

definition sample_world :: world where
  "sample_world =
     showForm sample_click ((page None)\<lparr>lmap := Some \<lparr>view = sample_coords, markers = []\<rparr>\<rparr>)"

definition sample_running :: form where
  "sample_running =
     \<lparr>inputType = ''running'', inputDistance = Fin (5854679515581645 / 2 ^ 50),
      inputDuration = Fin 24, inputCadence = Fin 170, inputElevation = Fin 0\<rparr>"

definition sample_cycling :: form where
  "sample_cycling =
     \<lparr>inputType = ''cycling'', inputDistance = Fin 20, inputDuration = Fin 60,
      inputCadence = Fin 0, inputElevation = Fin (- 5)\<rparr>"

text \<open>Half a kilometre in \<open>2 ^ 1023\<close> minutes: both numbers are finite and positive.\<close>

definition sample_endless :: form where
  "sample_endless =
     \<lparr>inputType = ''running'', inputDistance = Fin (1 / 2), inputDuration = Fin (2 ^ 1023),
      inputCadence = Fin 170, inputElevation = Fin 0\<rparr>"

text \<open>The running form submitted on the sample page.\<close>

definition sample_logged :: "error + world" where
  "sample_logged = newWorkout sample_running sample_date 1793647200000 sample_world"

text \<open>The stored form of that entry.\<close>

definition sample_json :: "json list" where
  "sample_json =
     [JObj [(''date'', JStr ''2026-11-02T19:20:00.000Z''),
            (''id'', JStr ''3647200000''),
            (''coords'', JArr [JNum 45.75, JNum 16]),
            (''distance'', JNum (5854679515581645 / 2 ^ 50)),
            (''duration'', JNum 24),
            (''type'', JStr ''running''),
            (''cadence'', JNum 170),
            (''pace'', JNum (2598230554252209 / 2 ^ 49)),
            (''description'', JStr ''Running on November 2'')]]"

text \<open>A page on which that entry was restored; the map has not loaded.\<close>

definition sample_restored :: world where
  "sample_restored =
     (page (Some (Doc (JArr sample_json))))
       \<lparr>workouts := VArr (map of_json sample_json), list_items := rev (map of_json sample_json)\<rparr>"

definition sample_run :: creation where
  "sample_run =
     NewRunning sample_date 1793647200000 sample_click (Fin (5854679515581645 / 2 ^ 50))
       (Fin 24) (Fin 170)"

definition sample_ride :: creation where
  "sample_ride = NewCycling sample_date 1793647200000 sample_click (Fin 20) (Fin 60) (Fin (- 5))"

definition sample_ride_later :: creation where
  "sample_ride_later =
     NewCycling sample_date 1793647260000 sample_click (Fin 12) (Fin 30) (Fin 40)"

definition sample_endless_run :: creation where
  "sample_endless_run =
     NewRunning sample_date 1793647200000 sample_click (Fin (1 / 2)) (Fin (2 ^ 1023)) (Fin 170)"

text \<open>The sample page after the running form was submitted and accepted.\<close>

definition sample_logged_world :: world where
  "sample_logged_world =
     setLocalStorage (hideForm
       (sample_world\<lparr>workouts := VArr [entry sample_run],
          lmap := Some \<lparr>view = sample_coords, markers = [entry sample_run]\<rparr>,
          list_items := [entry sample_run]\<rparr>))"

section \<open>Rounding to binary64\<close>

lemma floor_log2_eq:
  assumes "2 powi k \<le> x" and "x < 2 powi (k + 1)"
  shows "\<lfloor>log 2 x\<rfloor> = k"
proof -
  have "0 < (2::real) powi k" by simp
  with assms(1) have pos: "0 < x" by linarith
  have a: "(2::real) powr (real_of_int k) = 2 powi k"
    by (simp add: powr_real_of_int')
  have "(2::real) powr (real_of_int (k + 1)) = 2 powi (k + 1)"
    by (rule powr_real_of_int') simp_all
  then have b: "(2::real) powr (real_of_int k + 1) = 2 powi (k + 1)" by simp
  show ?thesis
    using floor_log_eq_powr_iff [of x 2 k] pos assms a b by simp
qed

lemma round_half_even_eq:
  assumes "of_int m - 1 / 2 < x" and "x < of_int m + 1 / 2"
  shows "round_half_even x = m"
proof -
  have "\<lfloor>x\<rfloor> = m \<or> \<lfloor>x\<rfloor> = m - 1"
    using assms by linarith
  then show ?thesis
  proof
    assume f: "\<lfloor>x\<rfloor> = m"
    with assms show ?thesis by (simp add: round_half_even_def)
  next
    assume f: "\<lfloor>x\<rfloor> = m - 1"
    with assms show ?thesis by (simp add: round_half_even_def)
  qed
qed

lemma round_half_even_of_int: "round_half_even (of_int m) = m"
  by (rule round_half_even_eq) simp_all

text \<open>
  Evaluating a rounding of a positive \<open>x\<close>: its binade \<open>k\<close> and the integer \<open>m\<close> nearest to
  the scaled value are given.
\<close>

lemma round64_eval:
  assumes "2 powi k \<le> x" and "x < 2 powi (k + 1)"
    and "e = max (k - 52) (- 1074)"
    and "of_int m - 1 / 2 < x / 2 powi e" and "x / 2 powi e < of_int m + 1 / 2"
    and "y = of_int m * 2 powi e" and "y < 2 ^ 1024"
  shows "round64 x = Fin y"
proof -
  have "0 < (2::real) powi k" by simp
  with assms(1) have pos: "0 < x" by linarith
  then have ax: "\<bar>x\<bar> = x" by simp
  have e: "binary64_exponent x = e"
    using floor_log2_eq [OF assms(1,2)] assms(3) by (simp add: binary64_exponent_def ax)
  have m: "round_half_even (x / 2 powi e) = m"
    using assms(4,5) by (rule round_half_even_eq)
  have t: "0 \<le> x / 2 powi e" using pos by simp
  from t assms(5) have "- 1 < (of_int m :: real)" by linarith
  then have "0 \<le> m" by linarith
  then have "0 \<le> y" using assms(6) by simp
  moreover have "(0::real) < 2 ^ 1024" by simp
  ultimately have "\<not> y \<le> - (2 ^ 1024)" by linarith
  with pos assms(6,7) show ?thesis
    by (simp add: round64_def e m Let_def)
qed

text \<open>A power of two from \<open>2 ^ 1024\<close> on is beyond the finite values.\<close>

lemma round64_pow2_overflow:
  assumes "1024 \<le> k"
  shows "round64 (2 powi k) = PosInf"
proof -
  have "\<lfloor>log 2 ((2::real) powi k)\<rfloor> = k"
    by (rule floor_log2_eq) (simp_all add: power_int_add)
  then have e: "binary64_exponent (2 powi k) = k - 52"
    using assms by (simp add: binary64_exponent_def)
  have "(2::real) powi k / 2 powi (k - 52) = 2 powi 52"
    by (simp add: power_int_diff)
  also have "\<dots> = of_int (2 ^ 52)" by (simp add: power_int_def)
  finally have m: "round_half_even ((2::real) powi k / 2 powi (k - 52)) = 2 ^ 52"
    by (simp only: round_half_even_of_int)
  have "of_int (2 ^ 52) * (2::real) powi (k - 52) = 2 powi 52 * 2 powi (k - 52)"
    by (simp add: power_int_def)
  also have "\<dots> = 2 powi (52 + (k - 52))"
    by (rule power_int_add [symmetric]) simp
  also have "\<dots> = 2 powi k" by simp
  finally have y: "of_int (2 ^ 52) * (2::real) powi (k - 52) = 2 powi k" .
  have "(2::real) powi 1024 \<le> 2 powi k"
    using assms by (intro power_int_increasing) simp_all
  then have big: "(2::real) ^ 1024 \<le> 2 powi k" by (simp add: power_int_def)
  have nz: "(2::real) powi k \<noteq> 0" by simp
  show ?thesis
    unfolding round64_def Let_def e m y using big nz by (simp only: if_False if_True)
qed

subsection \<open>The quotients of the sample data\<close>

lemma round64_five_point_two: "round64 5.2 = Fin (5854679515581645 / 2 ^ 50)"
  by (rule round64_eval [where k = 2 and e = "- 50" and m = 5854679515581645])
     (simp_all add: power_int_def power_divide)

lemma sample_pace:
  "js_div (Fin 24) (Fin (5854679515581645 / 2 ^ 50)) = Fin (2598230554252209 / 2 ^ 49)"
proof -
  have "round64 (24 / (5854679515581645 / 2 ^ 50)) = Fin (2598230554252209 / 2 ^ 49)"
    by (rule round64_eval [where k = 2 and e = "- 50" and m = 5196461108504418])
       (simp_all add: power_int_def power_divide)
  then show ?thesis by simp
qed

lemma sample_speed:
  "js_div (js_div (Fin 20) (Fin 60)) (Fin 60) = Fin (3202559735019019 / 2 ^ 59)"
proof -
  have 1: "round64 (20 / 60) = Fin (6004799503160661 / 2 ^ 54)"
    by (rule round64_eval [where k = "- 2" and e = "- 54" and m = 6004799503160661])
       (simp_all add: power_int_def power_divide)
  have 2: "round64 (6004799503160661 / 2 ^ 54 / 60) = Fin (3202559735019019 / 2 ^ 59)"
    by (rule round64_eval [where k = "- 8" and e = "- 60" and m = 6405119470038038])
       (simp_all add: power_int_def power_divide)
  have "js_div (Fin 20) (Fin 60) = Fin (6004799503160661 / 2 ^ 54)"
    using 1 by simp
  then show ?thesis using 2 by simp
qed

lemma one_division_differs: "round64 (20 / (60 * 60)) = Fin (6405119470038039 / 2 ^ 60)"
  by (rule round64_eval [where k = "- 8" and e = "- 60" and m = 6405119470038039])
     (simp_all add: power_int_def power_divide)

lemma endless_pace: "js_div (Fin (2 ^ 1023)) (Fin (1 / 2)) = PosInf"
proof -
  have "(2::real) ^ 1023 / (1 / 2) = 2 powi 1024" by (simp add: power_int_def)
  then have "round64 (2 ^ 1023 / (1 / 2)) = PosInf"
    by (simp only: round64_pow2_overflow)
  then show ?thesis by simp
qed

section \<open>Sequencing and the steps of a submission\<close>

lemma and_then_eq_Inr: "(and_then r f = Inr y) = (\<exists>x. r = Inr x \<and> f x = Inr y)"
  by (cases r) auto

lemma push_Inr:
  "push x w = Inr w1 \<Longrightarrow> \<exists>ws. workouts w = VArr ws \<and> w1 = w\<lparr>workouts := VArr (ws @ [x])\<rparr>"
  by (cases "workouts w") (auto simp: push_def)

lemma renderWorkoutMarker_Inr:
  "renderWorkoutMarker x w = Inr w1 \<Longrightarrow>
   \<exists>m. lmap w = Some m \<and> w1 = w\<lparr>lmap := Some (m\<lparr>markers := markers m @ [x]\<rparr>)\<rparr>"
  by (cases "lmap w") (auto simp: renderWorkoutMarker_def and_then_eq_Inr split: if_splits)

lemma renderWorkout_Inr:
  "renderWorkout x w = Inr w1 \<Longrightarrow> w1 = w\<lparr>list_items := x # list_items w\<rparr>"
  by (auto simp: renderWorkout_def and_then_eq_Inr split: if_splits sum.splits jsval.splits)

lemma addWorkout_Inr:
  assumes "addWorkout x w = Inr w'"
  shows "\<exists>ws m. workouts w = VArr ws \<and> lmap w = Some m \<and>
           w' = setLocalStorage (hideForm
                  (w\<lparr>workouts := VArr (ws @ [x]),
                     lmap := Some (m\<lparr>markers := markers m @ [x]\<rparr>),
                     list_items := x # list_items w\<rparr>))"
proof -
  from assms obtain w1 w2 w3 where
    1: "push x w = Inr w1" and 2: "renderWorkoutMarker x w1 = Inr w2"
    and 3: "renderWorkout x w2 = Inr w3" and 4: "w' = setLocalStorage (hideForm w3)"
    by (auto simp: addWorkout_def and_then_eq_Inr)
  from push_Inr [OF 1] obtain ws where
    ws: "workouts w = VArr ws" "w1 = w\<lparr>workouts := VArr (ws @ [x])\<rparr>"
    by blast
  from renderWorkoutMarker_Inr [OF 2] obtain m where
    m: "lmap w1 = Some m" "w2 = w1\<lparr>lmap := Some (m\<lparr>markers := markers m @ [x]\<rparr>)\<rparr>"
    by blast
  from renderWorkout_Inr [OF 3] have w3: "w3 = w2\<lparr>list_items := x # list_items w2\<rparr>" .
  show ?thesis using ws m w3 4 by simp
qed

lemma addWorkout_alerts: "addWorkout x w = Inr w' \<Longrightarrow> alerts w' = alerts w"
  by (drule addWorkout_Inr) (auto simp: setLocalStorage_def hideForm_def)

lemma addWorkout_not_alert: "addWorkout x w \<noteq> Inr (alert msg w)"
proof
  assume "addWorkout x w = Inr (alert msg w)"
  then have "alerts (alert msg w) = alerts w" by (rule addWorkout_alerts)
  then show False by (simp add: alert_def)
qed

lemma checks_running:
  "(\<not> validInputs [a, b, c] \<or> \<not> allPositive [a, b, c])
     = (not_finite a \<or> not_finite b \<or> not_finite c \<or> le0 a \<or> le0 b \<or> le0 c)"
  by (cases a; cases b; cases c)
    (auto simp: validInputs_def allPositive_def not_finite_def le0_def)

lemma checks_cycling:
  "(\<not> validInputs [a, b, c] \<or> \<not> allPositive [a, b])
     = (not_finite a \<or> not_finite b \<or> not_finite c \<or> le0 a \<or> le0 b)"
  by (cases a; cases b; cases c)
    (auto simp: validInputs_def allPositive_def not_finite_def le0_def)

lemma newWorkout_alert_iff:
  assumes "mapEvent w = Some ll" and "inputType f = ''running'' \<or> inputType f = ''cycling''"
  shows "(newWorkout f d now w = Inr (alert ''Inputs have to be positive numbers!'' w))
           = spec_invalid f"
proof (cases "inputType f = ''running''")
  case True
  then show ?thesis
    using assms(1) checks_running [of "inputDistance f" "inputDuration f" "inputCadence f"]
    by (simp add: newWorkout_def spec_invalid_def addWorkout_not_alert del: list.pred_inject)
next
  case False
  with assms(2) have c: "inputType f = ''cycling''" by simp
  show ?thesis
    using assms(1) c checks_cycling [of "inputDistance f" "inputDuration f" "inputElevation f"]
    by (simp add: newWorkout_def spec_invalid_def addWorkout_not_alert del: list.pred_inject)
qed

section \<open>Entries: reading, rendering, serialising, looking up\<close>

lemma get_prop_entry_id: "get_prop (entry c) ''id'' = Inr (VStr (entry_id c))"
  by (cases c) (simp_all add: Running_def Cycling_def Workout_def)

lemma renderWorkout_entry:
  "renderWorkout (entry c) w = Inr (w\<lparr>list_items := entry c # list_items w\<rparr>)"
  by (cases c) (simp_all add: renderWorkout_def Running_def Cycling_def Workout_def)

lemma renderWorkoutMarker_entry:
  "lmap w = Some m \<Longrightarrow>
   renderWorkoutMarker (entry c) w
     = Inr (w\<lparr>lmap := Some (m\<lparr>markers := markers m @ [entry c]\<rparr>)\<rparr>)"
  by (cases c) (simp_all add: renderWorkoutMarker_def Running_def Cycling_def Workout_def)

lemma renderWorkout_restored:
  "renderWorkout (with_date_as_string (entry c)) w
     = Inr (w\<lparr>list_items := with_date_as_string (entry c) # list_items w\<rparr>)"
  by (cases c) (simp_all add: renderWorkout_def Running_def Cycling_def Workout_def)

lemma forEach_renderWorkout:
  "(\<And>x v. x \<in> set xs \<Longrightarrow> renderWorkout x v = Inr (v\<lparr>list_items := x # list_items v\<rparr>))
   \<Longrightarrow> forEach renderWorkout xs w = Inr (w\<lparr>list_items := rev xs @ list_items w\<rparr>)"
  by (induction xs arbitrary: w) simp_all

lemma isFinite_Fin: "isFinite x = (\<exists>r. x = Fin r)"
  by (cases x) simp_all

lemma stringify_entry:
  assumes "valid_creation c" and "finite_metric c"
  shows "\<exists>j. JSON_stringify (entry c) = Some j \<and> of_json j = with_date_as_string (entry c)"
proof (cases c)
  case (NewRunning d now ll a b k)
  with assms obtain la lo a' b' k' p where
    "lat ll = Fin la" "lng ll = Fin lo" "a = Fin a'" "b = Fin b'" "k = Fin k'"
    "calculatePace a b = Fin p"
    by (auto simp: validInputs_def isFinite_Fin)
  with NewRunning show ?thesis
    by (simp add: Running_def Workout_def)
next
  case (NewCycling d now ll a b k)
  with assms obtain la lo a' b' k' p where
    "lat ll = Fin la" "lng ll = Fin lo" "a = Fin a'" "b = Fin b'" "k = Fin k'"
    "calculateSpeed a b = Fin p"
    by (auto simp: validInputs_def isFinite_Fin)
  with NewCycling show ?thesis
    by (simp add: Cycling_def Workout_def)
qed

lemma stringify_entries:
  assumes "\<forall>c \<in> set cs. valid_creation c \<and> finite_metric c"
  shows "map of_json (map array_element (map JSON_stringify (map entry cs)))
           = map (\<lambda>c. with_date_as_string (entry c)) cs"
  using assms
proof (induction cs)
  case Nil
  then show ?case by simp
next
  case (Cons c cs)
  from Cons.prems have "valid_creation c" "finite_metric c" by simp_all
  from stringify_entry [OF this] obtain j where
    "JSON_stringify (entry c) = Some j" "of_json j = with_date_as_string (entry c)" by blast
  with Cons show ?case by simp
qed

lemma find_by_id_entries:
  "find_by_id i (map entry cs)
     = (case List.find (\<lambda>c. entry_id c = i) cs of
          None \<Rightarrow> Inr VUndefined
        | Some c \<Rightarrow> Inr (entry c))"
  by (induction cs) (simp_all add: get_prop_entry_id del: entry_id.simps entry.simps)

section \<open>Decimal digits of the identifier\<close>

lemma length_to_string_nat_pos: "0 < length (to_string_nat n)"
  by (subst to_string_nat.simps) simp

lemma length_to_string_nat: "(Suc k < length (to_string_nat n)) = (10 ^ Suc k \<le> n)"
proof (induction k arbitrary: n)
  case 0
  show ?case
    using length_to_string_nat_pos [of "n div 10"]
    by (subst to_string_nat.simps) simp
next
  case (Suc k)
  show ?case
  proof (cases "n < 10")
    case True
    have "n < 10 ^ Suc (Suc k)"
      using True
      by (metis less_le_trans power_one_right power_increasing le_add1 plus_1_eq_Suc
          one_le_numeral)
    with True show ?thesis
      by (subst to_string_nat.simps) simp
  next
    case False
    have "(10 ^ Suc k \<le> n div 10) = (10 ^ Suc (Suc k) \<le> n)"
      by (simp add: less_eq_div_iff_mult_less_eq mult.commute)
    with False Suc [of "n div 10"] show ?thesis
      by (subst to_string_nat.simps) simp
  qed
qed

lemma low_digits_Suc: "low_digits (Suc k) n = low_digits k (n div 10) @ [digit_char (n mod 10)]"
proof -
  have "rev [0..<Suc k] = map Suc (rev [0..<k]) @ [0]"
  proof -
    have "rev [Suc 0..<Suc k] = map Suc (rev [0..<k])"
      by (simp only: rev_map [symmetric] map_Suc_upt)
    then show ?thesis
      by (simp add: upt_conv_Cons del: upt_Suc)
  qed
  then show ?thesis
    by (simp add: low_digits_def comp_def div_mult2_eq del: upt_Suc)
qed

lemma drop_low_digits:
  "k \<le> length (to_string_nat n) \<Longrightarrow>
   drop (length (to_string_nat n) - k) (to_string_nat n) = low_digits k n"
proof (induction k arbitrary: n)
  case 0
  then show ?case by (simp add: low_digits_def)
next
  case (Suc k)
  show ?case
  proof (cases "n < 10")
    case True
    then have s: "to_string_nat n = [digit_char n]"
      by (subst to_string_nat.simps) simp
    with Suc.prems have "k = 0" by simp
    with s True show ?thesis by (simp add: low_digits_def)
  next
    case False
    then have s: "to_string_nat n = to_string_nat (n div 10) @ [digit_char (n mod 10)]"
      by (subst to_string_nat.simps) simp
    with Suc.prems have k: "k \<le> length (to_string_nat (n div 10))" by simp
    from Suc.IH [OF k] k show ?thesis
      by (simp add: s low_digits_Suc Suc_diff_le)
  qed
qed

lemma id_low_digits:
  assumes "10 ^ 9 \<le> now"
  shows "slice_last10 (to_string_nat now) = low_digits 10 now"
proof -
  have "Suc 8 < length (to_string_nat now)"
    using assms by (simp only: length_to_string_nat) simp
  then have "10 \<le> length (to_string_nat now)" by simp
  then show ?thesis
    unfolding slice_last10_def by (rule drop_low_digits)
qed

section \<open>Derived fields\<close>

text \<open>
  C1. A Cycling entry built from a positive finite distance and duration has
  \<^verbatim>\<open>speed\<close> equal to distance / duration / 60 in the program's arithmetic: the
  quotient distance / duration, rounded to binary64, is divided by 60 and rounded again
  (an overflowed quotient stays infinite). So 20 km in 60 min gives 20/60/60, the
  binary64 value \<open>3202559735019019 / 2 ^ 59\<close>, about 0.00556.
\<close>

theorem Cycling_speed:
  "0 < km \<Longrightarrow> 0 < mins \<Longrightarrow>
   get_prop (Cycling d now coords (Fin km) (Fin mins) elevation) ''speed''
     = Inr (VNum (js_div (js_div (Fin km) (Fin mins)) (Fin 60)))
   \<and> js_div (js_div (Fin km) (Fin mins)) (Fin 60)
       = (case round64 (km / mins) of Fin q \<Rightarrow> round64 (q / 60) | x \<Rightarrow> x)"
  by (cases "round64 (km / mins)") (simp_all add: Cycling_def Workout_def calculateSpeed_def)

theorem Cycling_speed_witness:
  "(0::real) < 20 \<and> (0::real) < 60
   \<and> get_prop (Cycling sample_date 1793647200000 sample_coords (Fin 20) (Fin 60) (Fin 120))
        ''speed''
       = Inr (VNum (Fin (3202559735019019 / 2 ^ 59)))
   \<and> \<bar>3202559735019019 / 2 ^ 59 - 1 / 180\<bar> < (1 / 10 ^ 18 :: real)
   \<and> round64 (20 / (60 * 60)) \<noteq> Fin (3202559735019019 / 2 ^ 59)"
proof -
  have "get_prop (Cycling sample_date 1793647200000 sample_coords (Fin 20) (Fin 60) (Fin 120))
        ''speed'' = Inr (VNum (js_div (js_div (Fin 20) (Fin 60)) (Fin 60)))"
    using Cycling_speed [of 20 60 sample_date 1793647200000 sample_coords "Fin 120"] by simp
  then have 1: "get_prop
      (Cycling sample_date 1793647200000 sample_coords (Fin 20) (Fin 60) (Fin 120)) ''speed''
       = Inr (VNum (Fin (3202559735019019 / 2 ^ 59)))"
    by (simp only: sample_speed)
  have 2: "\<bar>3202559735019019 / 2 ^ 59 - 1 / 180\<bar> < (1 / 10 ^ 18 :: real)"
    by simp
  have 3: "round64 (20 / (60 * 60)) \<noteq> Fin (3202559735019019 / 2 ^ 59)"
    by (simp only: one_division_differs) simp
  from 1 2 3 show ?thesis by simp
qed

text \<open>
  C2. A Running entry built from a positive finite distance and duration has
  \<^verbatim>\<open>pace\<close> equal to duration / distance in the program's arithmetic, the quotient
  rounded to binary64. So 5.2 km in 24 min gives 24/5.2, the binary64 value
  \<open>2598230554252209 / 2 ^ 49\<close>, about 4.6154.
\<close>

theorem Running_pace:
  "0 < km \<Longrightarrow> 0 < mins \<Longrightarrow>
   get_prop (Running d now coords (Fin km) (Fin mins) cadence) ''pace''
     = Inr (VNum (js_div (Fin mins) (Fin km)))
   \<and> js_div (Fin mins) (Fin km) = round64 (mins / km)"
  by (simp add: Running_def Workout_def calculatePace_def)

theorem Running_pace_witness:
  "(0::real) < 5854679515581645 / 2 ^ 50 \<and> (0::real) < 24
   \<and> round64 5.2 = Fin (5854679515581645 / 2 ^ 50)
   \<and> get_prop (Running sample_date 1793647200000 sample_coords
         (Fin (5854679515581645 / 2 ^ 50)) (Fin 24) (Fin 170)) ''pace''
       = Inr (VNum (Fin (2598230554252209 / 2 ^ 49)))
   \<and> \<bar>2598230554252209 / 2 ^ 49 - 60 / 13\<bar> < (1 / 10 ^ 15 :: real)"
proof -
  have p: "(0::real) < 5854679515581645 / 2 ^ 50" by simp
  have "get_prop (Running sample_date 1793647200000 sample_coords
         (Fin (5854679515581645 / 2 ^ 50)) (Fin 24) (Fin 170)) ''pace''
       = Inr (VNum (js_div (Fin 24) (Fin (5854679515581645 / 2 ^ 50))))"
    using Running_pace [OF p, of 24 sample_date 1793647200000 sample_coords "Fin 170"] by simp
  then have 1: "get_prop (Running sample_date 1793647200000 sample_coords
         (Fin (5854679515581645 / 2 ^ 50)) (Fin 24) (Fin 170)) ''pace''
       = Inr (VNum (Fin (2598230554252209 / 2 ^ 49)))"
    by (simp only: sample_pace)
  have 2: "\<bar>2598230554252209 / 2 ^ 49 - 60 / 13\<bar> < (1 / 10 ^ 15 :: real)"
    by simp
  from p 1 2 round64_five_point_two show ?thesis by simp
qed

section \<open>Submitting the form\<close>

lemma addWorkout_entry:
  assumes "workouts w = VArr ws" and "lmap w = Some m"
  shows "addWorkout (entry c) w
           = Inr (setLocalStorage (hideForm
               (w\<lparr>workouts := VArr (ws @ [entry c]),
                  lmap := Some (m\<lparr>markers := markers m @ [entry c]\<rparr>),
                  list_items := entry c # list_items w\<rparr>)))"
  using assms
  by (simp add: addWorkout_def push_def renderWorkoutMarker_entry renderWorkout_entry
      del: entry.simps)

lemma newWorkout_accepts:
  assumes "mapEvent w = Some ll" and "inputType f = ''running'' \<or> inputType f = ''cycling''"
    and "\<not> spec_invalid f"
  shows "newWorkout f d now w = addWorkout (entry (creation_of f d now ll)) w"
proof (cases "inputType f = ''running''")
  case True
  then show ?thesis
    using assms(1,3) checks_running [of "inputDistance f" "inputDuration f" "inputCadence f"]
    by (simp add: newWorkout_def spec_invalid_def creation_of_def del: list.pred_inject)
next
  case False
  with assms(2) have c: "inputType f = ''cycling''" by simp
  show ?thesis
    using assms(1,3) c checks_cycling [of "inputDistance f" "inputDuration f" "inputElevation f"]
    by (simp add: newWorkout_def spec_invalid_def creation_of_def del: list.pred_inject)
qed

text \<open>
  An accepted submission appends \<open>entry (creation_of f d now ll)\<close> to the entry list, and
  what it appends is a valid entry: stores of appended entries are the lists
  \<open>map entry cs\<close>.
\<close>

lemma newWorkout_appends:
  assumes "mapEvent w = Some ll" and "inputType f = ''running'' \<or> inputType f = ''cycling''"
    and "\<not> spec_invalid f" and "workouts w = VArr ws" and "lmap w = Some m"
  shows "workouts_of (newWorkout f d now w) = Inr (VArr (ws @ [entry (creation_of f d now ll)]))"
  using newWorkout_accepts [OF assms(1-3), of d now] addWorkout_entry [OF assms(4,5)]
  by (simp add: workouts_of_def setLocalStorage_def hideForm_def del: entry.simps)

lemma accepted_is_valid:
  assumes "inputType f = ''running'' \<or> inputType f = ''cycling''" and "\<not> spec_invalid f"
    and "isFinite (lat ll)" and "isFinite (lng ll)"
  shows "valid_creation (creation_of f d now ll)"
proof (cases "inputType f = ''running''")
  case True
  then show ?thesis
    using assms(2-4) checks_running [of "inputDistance f" "inputDuration f" "inputCadence f"]
    by (simp add: creation_of_def spec_invalid_def del: list.pred_inject)
next
  case False
  then show ?thesis
    using assms(2-4) checks_cycling [of "inputDistance f" "inputDuration f" "inputElevation f"]
    by (simp add: creation_of_def spec_invalid_def del: list.pred_inject)
qed

text \<open>The sample page is reached: a new page, the map loaded at the position, a click.\<close>

lemma sample_world_reached:
  "and_then (and_then (new_App False None) (loadMap (Fin 45.75) (Fin 16)))
       (\<lambda>w. Inr (showForm sample_click w))
     = Inr sample_world"
  by (simp add: new_App_def getPosition_def getLocalStorage_def loadMap_def page_def
      sample_world_def sample_coords_def showForm_def)

lemma sample_world_simps:
  "mapEvent sample_world = Some sample_click"
  "workouts sample_world = VArr []"
  "lmap sample_world = Some \<lparr>view = sample_coords, markers = []\<rparr>"
  "localStorage sample_world = None"
  "list_items sample_world = []"
  "alerts sample_world = []"
  by (simp_all add: sample_world_def showForm_def page_def)

text \<open>
  C3. With the form opened by a click on the map, a submission is refused (the alert
  ``Inputs have to be positive numbers!'' and nothing else) exactly when a supplied
  number is not finite, or the distance or the duration is \<open>\<le> 0\<close>, or, for running
  only, the cadence is \<open>\<le> 0\<close>. The elevation of a cycling entry is checked for
  finiteness only: a negative or zero elevation is accepted.
\<close>

theorem newWorkout_validation:
  assumes "mapEvent w = Some ll" and "inputType f = ''running'' \<or> inputType f = ''cycling''"
  shows "(newWorkout f d now w = Inr (alert ''Inputs have to be positive numbers!'' w))
           = spec_invalid f"
  using assms by (rule newWorkout_alert_iff)

theorem newWorkout_validation_witness:
  "mapEvent sample_world = Some sample_click
   \<and> inputType sample_cycling = ''cycling''
   \<and> \<not> spec_invalid sample_cycling
   \<and> newWorkout sample_cycling sample_date 1793647200000 sample_world
       \<noteq> Inr (alert ''Inputs have to be positive numbers!'' sample_world)
   \<and> workouts_of (newWorkout sample_cycling sample_date 1793647200000 sample_world)
       = Inr (VArr [entry sample_ride])
   \<and> spec_invalid (sample_running\<lparr>inputCadence := Fin 0\<rparr>)
   \<and> newWorkout (sample_running\<lparr>inputCadence := Fin 0\<rparr>) sample_date 1793647200000 sample_world
       = Inr (alert ''Inputs have to be positive numbers!'' sample_world)
   \<and> spec_invalid (sample_cycling\<lparr>inputElevation := NaN\<rparr>)
   \<and> newWorkout (sample_cycling\<lparr>inputElevation := NaN\<rparr>) sample_date 1793647200000 sample_world
       = Inr (alert ''Inputs have to be positive numbers!'' sample_world)"
proof -
  have c: "inputType sample_cycling = ''running'' \<or> inputType sample_cycling = ''cycling''"
    by (simp add: sample_cycling_def)
  have r: "inputType (sample_running\<lparr>inputCadence := Fin 0\<rparr>) = ''running'' \<or>
           inputType (sample_running\<lparr>inputCadence := Fin 0\<rparr>) = ''cycling''"
    by (simp add: sample_running_def)
  have n: "inputType (sample_cycling\<lparr>inputElevation := NaN\<rparr>) = ''running'' \<or>
           inputType (sample_cycling\<lparr>inputElevation := NaN\<rparr>) = ''cycling''"
    by (simp add: sample_cycling_def)
  have ok: "\<not> spec_invalid sample_cycling"
    by (simp add: spec_invalid_def sample_cycling_def not_finite_def le0_def)
  have bad1: "spec_invalid (sample_running\<lparr>inputCadence := Fin 0\<rparr>)"
    by (simp add: spec_invalid_def sample_running_def not_finite_def le0_def)
  have bad2: "spec_invalid (sample_cycling\<lparr>inputElevation := NaN\<rparr>)"
    by (simp add: spec_invalid_def sample_cycling_def not_finite_def le0_def)
  have e: "creation_of sample_cycling sample_date 1793647200000 sample_click = sample_ride"
    by (simp add: creation_of_def sample_cycling_def sample_ride_def)
  have acc: "workouts_of (newWorkout sample_cycling sample_date 1793647200000 sample_world)
       = Inr (VArr [entry sample_ride])"
    using newWorkout_accepts [OF sample_world_simps(1) c ok, of sample_date 1793647200000]
      addWorkout_entry [OF sample_world_simps(2,3), of sample_ride]
    by (simp add: e workouts_of_def setLocalStorage_def hideForm_def del: entry.simps)
  show ?thesis
    using newWorkout_validation [OF sample_world_simps(1) c, of sample_date 1793647200000]
      newWorkout_validation [OF sample_world_simps(1) r, of sample_date 1793647200000]
      newWorkout_validation [OF sample_world_simps(1) n, of sample_date 1793647200000]
      ok bad1 bad2 acc
    by (simp add: sample_world_simps(1)) (simp add: sample_cycling_def)
qed

text \<open>
  C9. A submission that fails validation leaves the entry list and the stored value as
  they were: nothing is appended, rendered or saved.
\<close>

theorem failed_validation_changes_nothing:
  assumes "mapEvent w = Some ll" and "inputType f = ''running'' \<or> inputType f = ''cycling''"
    and "spec_invalid f"
  shows "\<exists>w'. newWorkout f d now w = Inr w' \<and> workouts w' = workouts w
           \<and> localStorage w' = localStorage w \<and> list_items w' = list_items w
           \<and> lmap w' = lmap w"
proof -
  have "newWorkout f d now w = Inr (alert ''Inputs have to be positive numbers!'' w)"
    using newWorkout_alert_iff [OF assms(1,2)] assms(3) by simp
  then show ?thesis by (simp add: alert_def)
qed

theorem failed_validation_changes_nothing_witness:
  "mapEvent sample_world = Some sample_click
   \<and> inputType (sample_running\<lparr>inputDistance := Fin 0\<rparr>) = ''running''
   \<and> spec_invalid (sample_running\<lparr>inputDistance := Fin 0\<rparr>)
   \<and> workouts_of (newWorkout (sample_running\<lparr>inputDistance := Fin 0\<rparr>) sample_date
         1793647200000 sample_world) = Inr (VArr [])
   \<and> map_sum id localStorage (newWorkout (sample_running\<lparr>inputDistance := Fin 0\<rparr>) sample_date
         1793647200000 sample_world) = Inr None"
proof -
  have r: "inputType (sample_running\<lparr>inputDistance := Fin 0\<rparr>) = ''running'' \<or>
           inputType (sample_running\<lparr>inputDistance := Fin 0\<rparr>) = ''cycling''"
    by (simp add: sample_running_def)
  have bad: "spec_invalid (sample_running\<lparr>inputDistance := Fin 0\<rparr>)"
    by (simp add: spec_invalid_def sample_running_def not_finite_def le0_def)
  from failed_validation_changes_nothing [OF sample_world_simps(1) r bad, of sample_date 1793647200000]
  obtain w' where
    "newWorkout (sample_running\<lparr>inputDistance := Fin 0\<rparr>) sample_date 1793647200000 sample_world
       = Inr w'" "workouts w' = workouts sample_world" "localStorage w' = localStorage sample_world"
    by blast
  then show ?thesis
    using bad by (simp add: sample_world_simps workouts_of_def) (simp add: sample_running_def)
qed

section \<open>Loading the stored entries\<close>

lemma renderWorkout_renders:
  "renderWorkout v w = (if renders v then Inr (w\<lparr>list_items := v # list_items w\<rparr>) else Inl TypeError)"
  by (cases v)
     (auto simp: renders_def renderWorkout_def and_then_eq_Inr split: sum.splits jsval.splits if_splits)

lemma forEach_renderWorkout_renders:
  "list_all renders xs \<Longrightarrow>
   forEach renderWorkout xs w = Inr (w\<lparr>list_items := rev xs @ list_items w\<rparr>)"
  by (rule forEach_renderWorkout) (simp add: renderWorkout_renders list_all_iff)

text \<open>
  C4, as the specification states it, fails: a stored value that is not JSON text makes
  \<^verbatim>\<open>JSON.parse\<close> throw, and \<^verbatim>\<open>_getLocalStorage\<close> has no handler.
\<close>

theorem load_malformed_raises: "getLocalStorage (page (Some Malformed)) = Inl SyntaxError"
  by (simp add: getLocalStorage_def page_def)

text \<open>
  C4, amended. With the key absent the load returns at once and leaves the entry list as
  it is (empty on a fresh page); with a stored JSON array whose elements can all be
  rendered it makes the deserialised array the entry list; with a stored value that is
  not JSON text it throws a SyntaxError.
\<close>

theorem getLocalStorage_outcomes:
  "(localStorage w = None \<longrightarrow> getLocalStorage w = Inr w)
   \<and> (localStorage w = Some Malformed \<longrightarrow> getLocalStorage w = Inl SyntaxError)
   \<and> (localStorage w = Some (Doc (JArr js)) \<and> list_all renders (map of_json js) \<longrightarrow>
        getLocalStorage w
          = Inr (w\<lparr>workouts := VArr (map of_json js),
                   list_items := rev (map of_json js) @ list_items w\<rparr>))"
proof (intro conjI impI)
  assume "localStorage w = None"
  then show "getLocalStorage w = Inr w" by (simp add: getLocalStorage_def)
next
  assume "localStorage w = Some Malformed"
  then show "getLocalStorage w = Inl SyntaxError" by (simp add: getLocalStorage_def)
next
  assume a: "localStorage w = Some (Doc (JArr js)) \<and> list_all renders (map of_json js)"
  then have "forEach renderWorkout (map of_json js) (w\<lparr>workouts := VArr (map of_json js)\<rparr>)
      = Inr (w\<lparr>workouts := VArr (map of_json js),
               list_items := rev (map of_json js) @ list_items w\<rparr>)"
    by (simp add: forEach_renderWorkout_renders)
  with a show "getLocalStorage w
          = Inr (w\<lparr>workouts := VArr (map of_json js),
                   list_items := rev (map of_json js) @ list_items w\<rparr>)"
    by (simp add: getLocalStorage_def)
qed

theorem getLocalStorage_outcomes_witness:
  "localStorage (page None) = None
   \<and> getLocalStorage (page None) = Inr (page None)
   \<and> workouts (page None) = VArr []
   \<and> localStorage (page (Some Malformed)) = Some Malformed
   \<and> getLocalStorage (page (Some Malformed)) = Inl SyntaxError
   \<and> localStorage (page (Some (Doc (JArr sample_json)))) = Some (Doc (JArr sample_json))
   \<and> list_all renders (map of_json sample_json)
   \<and> getLocalStorage (page (Some (Doc (JArr sample_json))))
       = Inr ((page (Some (Doc (JArr sample_json))))
               \<lparr>workouts := VArr (map of_json sample_json),
                list_items := rev (map of_json sample_json)\<rparr>)"
proof -
  have r: "list_all renders (map of_json sample_json)"
    by (simp add: sample_json_def renders_def renderWorkout_def)
  show ?thesis
    using getLocalStorage_outcomes [of "page None" sample_json]
      getLocalStorage_outcomes [of "page (Some Malformed)" sample_json]
      getLocalStorage_outcomes [of "page (Some (Doc (JArr sample_json)))" sample_json] r
    by (simp add: page_def)
qed

subsection \<open>The sample submission, evaluated\<close>

lemma sample_logged_eq: "sample_logged = Inr sample_logged_world"
proof -
  have t: "inputType sample_running = ''running'' \<or> inputType sample_running = ''cycling''"
    by (simp add: sample_running_def)
  have ok: "\<not> spec_invalid sample_running"
    by (simp add: spec_invalid_def sample_running_def not_finite_def le0_def)
  have e: "creation_of sample_running sample_date 1793647200000 sample_click = sample_run"
    by (simp add: creation_of_def sample_running_def sample_run_def)
  show ?thesis
    using newWorkout_accepts [OF sample_world_simps(1) t ok, of sample_date 1793647200000]
      addWorkout_entry [OF sample_world_simps(2,3), of sample_run]
    by (simp add: sample_logged_def sample_logged_world_def e sample_world_simps
        del: entry.simps)
qed

lemma sample_run_id: "entry_id sample_run = ''3647200000''"
  by (simp add: sample_run_def slice_last10_def to_string_nat.simps digit_char_def)

lemma sample_run_pace:
  "get_prop (entry sample_run) ''pace'' = Inr (VNum (Fin (2598230554252209 / 2 ^ 49)))"
  unfolding sample_run_def entry.simps Running_def calculatePace_def sample_pace
  by (simp add: Workout_def)

lemma sample_ride_speed:
  "get_prop (entry sample_ride) ''speed'' = Inr (VNum (Fin (3202559735019019 / 2 ^ 59)))"
  unfolding sample_ride_def entry.simps Cycling_def calculateSpeed_def sample_speed
  by (simp add: Workout_def)

lemma sample_finite_metric: "finite_metric sample_run" "finite_metric sample_ride"
  unfolding sample_run_def sample_ride_def finite_metric.simps calculatePace_def
    calculateSpeed_def sample_pace sample_speed
  by simp_all

lemma sample_run_stored:
  "JSON_stringify (VArr [entry sample_run]) = Some (JArr sample_json)"
  unfolding sample_run_def entry.simps Running_def calculatePace_def sample_pace
  by (simp add: sample_json_def Workout_def sample_click_def sample_date_def
      setDescription_def months_def toUpperCase_def slice_last10_def to_string_nat.simps
      digit_char_def)

section \<open>Saving and loading\<close>

lemma save_then_load:
  assumes "\<forall>c \<in> set cs. valid_creation c \<and> finite_metric c"
  shows "getLocalStorage (page (localStorage (setLocalStorage (w\<lparr>workouts := VArr (map entry cs)\<rparr>))))
           = Inr ((page (localStorage (setLocalStorage (w\<lparr>workouts := VArr (map entry cs)\<rparr>))))
                   \<lparr>workouts := VArr (map (\<lambda>c. with_date_as_string (entry c)) cs),
                    list_items := rev (map (\<lambda>c. with_date_as_string (entry c)) cs)\<rparr>)"
proof -
  let ?rs = "map (\<lambda>c. with_date_as_string (entry c)) cs"
  let ?j = "JArr (map array_element (map JSON_stringify (map entry cs)))"
  let ?cell = "localStorage (setLocalStorage (w\<lparr>workouts := VArr (map entry cs)\<rparr>))"
  have cell: "?cell = Some (Doc ?j)"
    by (simp add: setLocalStorage_def)
  have val: "of_json ?j = VArr ?rs"
    using stringify_entries [OF assms] by simp
  have p: "JSON_parse (localStorage (page ?cell)) = Inr (VArr ?rs)"
    using val by (simp only: cell page_def world.simps JSON_parse.simps)
  have fe: "forEach renderWorkout ?rs v = Inr (v\<lparr>list_items := rev ?rs @ list_items v\<rparr>)" for v
    by (rule forEach_renderWorkout) (auto simp: renderWorkout_restored)
  show ?thesis
    unfolding getLocalStorage_def p and_then.simps
    by (simp add: fe) (simp add: page_def)
qed

lemma get_prop_restored:
  "k \<noteq> ''date'' \<Longrightarrow> get_prop (with_date_as_string (entry c)) k = get_prop (entry c) k"
  by (cases c) (simp_all add: Running_def Cycling_def Workout_def)

lemma get_prop_restored_date:
  "get_prop (with_date_as_string (entry c)) ''date'' = Inr (VStr (toJSON (created_date c)))"
  by (cases c) (simp_all add: Running_def Cycling_def Workout_def)

lemma sample_endless_accepted:
  "newWorkout sample_endless sample_date 1793647200000 sample_world
     = Inr (setLocalStorage (hideForm
         (sample_world\<lparr>workouts := VArr [entry sample_endless_run],
            lmap := Some \<lparr>view = sample_coords, markers = [entry sample_endless_run]\<rparr>,
            list_items := [entry sample_endless_run]\<rparr>)))"
proof -
  have t: "inputType sample_endless = ''running'' \<or> inputType sample_endless = ''cycling''"
    by (simp add: sample_endless_def)
  have ok: "\<not> spec_invalid sample_endless"
    by (simp add: spec_invalid_def sample_endless_def not_finite_def le0_def)
  have e: "creation_of sample_endless sample_date 1793647200000 sample_click
             = sample_endless_run"
    by (simp add: creation_of_def sample_endless_def sample_endless_run_def)
  show ?thesis
    using newWorkout_accepts [OF sample_world_simps(1) t ok, of sample_date 1793647200000]
      addWorkout_entry [OF sample_world_simps(2,3), of sample_endless_run]
    by (simp add: e sample_world_simps del: entry.simps)
qed

lemma sample_endless_pace: "get_prop (entry sample_endless_run) ''pace'' = Inr (VNum PosInf)"
  unfolding sample_endless_run_def entry.simps Running_def calculatePace_def endless_pace
  by (simp add: Workout_def)

lemma sample_endless_reloaded:
  "getLocalStorage (page (localStorage (setLocalStorage (w\<lparr>workouts := VArr [entry sample_endless_run]\<rparr>))))
     = Inl TypeError"
  unfolding sample_endless_run_def entry.simps Running_def calculatePace_def endless_pace
  by (simp add: getLocalStorage_def setLocalStorage_def page_def renderWorkout_def Workout_def)

text \<open>
  C5, as the specification states it, fails on a derived field. Half a kilometre in
  \<open>2 ^ 1023\<close> minutes passes the checks of the form and is logged; its pace
  \<open>2 ^ 1023 / 0.5\<close> overflows to \<^verbatim>\<open>Infinity\<close>, which \<^verbatim>\<open>JSON.stringify\<close> writes as
  \<^verbatim>\<open>null\<close>. When the page is opened again the load does not reproduce the entry: it
  throws at \<^verbatim>\<open>workout.pace.toFixed\<close>.
\<close>

theorem save_load_overflowed_pace:
  "valid_creation sample_endless_run
   \<and> get_prop (entry sample_endless_run) ''pace'' = Inr (VNum PosInf)
   \<and> workouts_of (newWorkout sample_endless sample_date 1793647200000 sample_world)
       = Inr (VArr [entry sample_endless_run])
   \<and> reopen False (newWorkout sample_endless sample_date 1793647200000 sample_world)
       = Inl TypeError
   \<and> workouts_of (getLocalStorage (page (localStorage (setLocalStorage
        ((page None)\<lparr>workouts := VArr [entry sample_endless_run]\<rparr>)))))
       = Inl TypeError"
proof -
  have v: "valid_creation sample_endless_run"
    by (simp add: sample_endless_run_def sample_click_def validInputs_def allPositive_def)
  have a: "workouts_of (newWorkout sample_endless sample_date 1793647200000 sample_world)
       = Inr (VArr [entry sample_endless_run])"
    by (simp add: sample_endless_accepted workouts_of_def setLocalStorage_def hideForm_def
        del: entry.simps)
  have l: "localStorage (setLocalStorage (hideForm
         (sample_world\<lparr>workouts := VArr [entry sample_endless_run],
            lmap := Some \<lparr>view = sample_coords, markers = [entry sample_endless_run]\<rparr>,
            list_items := [entry sample_endless_run]\<rparr>)))
      = localStorage (setLocalStorage ((page None)\<lparr>workouts := VArr [entry sample_endless_run]\<rparr>))"
    by (simp add: setLocalStorage_def hideForm_def del: entry.simps)
  have r: "reopen False (newWorkout sample_endless sample_date 1793647200000 sample_world)
       = Inl TypeError"
    unfolding sample_endless_accepted reopen_def and_then.simps new_App_def l
    by (simp only: getPosition_def if_False sample_endless_reloaded)
  have g: "workouts_of (getLocalStorage (page (localStorage (setLocalStorage
        ((page None)\<lparr>workouts := VArr [entry sample_endless_run]\<rparr>))))) = Inl TypeError"
    by (simp only: sample_endless_reloaded workouts_of_def) simp
  from v sample_endless_pace a r g show ?thesis by (simp del: entry.simps)
qed

text \<open>
  C5, amended. Saving a list of valid entries whose pace or speed is finite and loading
  it on a fresh page gives the same entries in the same order, every property but
  \<^verbatim>\<open>date\<close> identical (so the description and the pace or speed are), and
  \<^verbatim>\<open>date\<close> turned into the ISO string of the creation date.
\<close>

theorem save_load_roundtrip:
  assumes "\<forall>c \<in> set cs. valid_creation c \<and> finite_metric c"
  shows "workouts_of (getLocalStorage (page (localStorage (setLocalStorage
            (w\<lparr>workouts := VArr (map entry cs)\<rparr>)))))
           = Inr (VArr (map (\<lambda>c. with_date_as_string (entry c)) cs))
         \<and> (\<forall>c \<in> set cs. \<forall>k. k \<noteq> ''date'' \<longrightarrow>
               get_prop (with_date_as_string (entry c)) k = get_prop (entry c) k)
         \<and> (\<forall>c \<in> set cs.
               get_prop (with_date_as_string (entry c)) ''date''
                 = Inr (VStr (toJSON (created_date c))))"
  using save_then_load [OF assms, of w]
  by (simp add: workouts_of_def get_prop_restored get_prop_restored_date del: entry.simps)

theorem save_load_roundtrip_witness:
  "valid_creation sample_ride \<and> finite_metric sample_ride
   \<and> valid_creation sample_run \<and> finite_metric sample_run
   \<and> workouts_of (getLocalStorage (page (localStorage (setLocalStorage
            (sample_world\<lparr>workouts := VArr (map entry [sample_ride, sample_run])\<rparr>)))))
           = Inr (VArr [with_date_as_string (entry sample_ride),
                        with_date_as_string (entry sample_run)])
   \<and> get_prop (with_date_as_string (entry sample_run)) ''pace''
       = Inr (VNum (Fin (2598230554252209 / 2 ^ 49)))
   \<and> get_prop (entry sample_run) ''pace'' = Inr (VNum (Fin (2598230554252209 / 2 ^ 49)))
   \<and> get_prop (with_date_as_string (entry sample_ride)) ''speed''
       = Inr (VNum (Fin (3202559735019019 / 2 ^ 59)))
   \<and> get_prop (entry sample_ride) ''speed'' = Inr (VNum (Fin (3202559735019019 / 2 ^ 59)))
   \<and> get_prop (with_date_as_string (entry sample_run)) ''description''
       = get_prop (entry sample_run) ''description''
   \<and> get_prop (with_date_as_string (entry sample_run)) ''date''
       = Inr (VStr ''2026-11-02T19:20:00.000Z'')"
proof -
  note p = sample_run_pace
  note q = sample_ride_speed
  note f = sample_finite_metric(2) sample_finite_metric(1)
  have v: "valid_creation sample_ride" "valid_creation sample_run"
    by (simp_all add: sample_run_def sample_ride_def sample_click_def validInputs_def
        allPositive_def)
  from v f have h: "\<forall>c \<in> set [sample_ride, sample_run]. valid_creation c \<and> finite_metric c"
    by simp
  have k: "''pace'' \<noteq> ''date''" "''speed'' \<noteq> ''date''" "''description'' \<noteq> ''date''"
    by simp_all
  have d: "toJSON (created_date sample_run) = ''2026-11-02T19:20:00.000Z''"
    by (simp add: sample_run_def sample_date_def)
  from save_load_roundtrip [OF h, of sample_world]
  have 1: "workouts_of (getLocalStorage (page (localStorage (setLocalStorage
            (sample_world\<lparr>workouts := VArr (map entry [sample_ride, sample_run])\<rparr>)))))
           = Inr (VArr (map (\<lambda>c. with_date_as_string (entry c)) [sample_ride, sample_run]))"
    and 2: "\<forall>c \<in> set [sample_ride, sample_run]. \<forall>k. k \<noteq> ''date'' \<longrightarrow>
               get_prop (with_date_as_string (entry c)) k = get_prop (entry c) k"
    and 3: "\<forall>c \<in> set [sample_ride, sample_run].
               get_prop (with_date_as_string (entry c)) ''date''
                 = Inr (VStr (toJSON (created_date c)))"
    by blast+
  from 2 k have 4: "get_prop (with_date_as_string (entry sample_run)) ''pace''
        = get_prop (entry sample_run) ''pace''"
    and 5: "get_prop (with_date_as_string (entry sample_ride)) ''speed''
        = get_prop (entry sample_ride) ''speed''"
    and 6: "get_prop (with_date_as_string (entry sample_run)) ''description''
       = get_prop (entry sample_run) ''description''"
    by simp_all
  from 3 d have 7: "get_prop (with_date_as_string (entry sample_run)) ''date''
       = Inr (VStr ''2026-11-02T19:20:00.000Z'')"
    by simp
  show ?thesis
    using v f 1 4 5 6 7 p q by (simp del: entry.simps finite_metric.simps)
qed

section \<open>Looking an entry up by its identifier\<close>

lemma find_first:
  assumes "\<forall>p \<in> set pre. entry_id p \<noteq> entry_id c"
  shows "List.find (\<lambda>x. entry_id x = entry_id c) (pre @ c # post) = Some c"
  using assms by (induction pre) (simp_all del: entry_id.simps)

lemma find_none:
  assumes "\<forall>c \<in> set cs. entry_id c \<noteq> i"
  shows "List.find (\<lambda>x. entry_id x = i) cs = None"
  using assms by (induction cs) (simp_all del: entry_id.simps)

lemma find_by_id_first:
  assumes "\<forall>p \<in> set pre. entry_id p \<noteq> entry_id c"
  shows "find_by_id (entry_id c) (map entry (pre @ c # post)) = Inr (entry c)"
  by (simp only: find_by_id_entries find_first [OF assms] option.case)

lemma find_by_id_none:
  assumes "\<forall>c \<in> set cs. entry_id c \<noteq> i"
  shows "find_by_id i (map entry cs) = Inr VUndefined"
  by (simp only: find_by_id_entries find_none [OF assms] option.case)

lemma sample_ids:
  "entry_id sample_run = ''3647200000''"
  "entry_id sample_ride = ''3647200000''"
  "entry_id sample_ride_later = ''3647260000''"
  by (simp_all add: sample_run_def sample_ride_def sample_ride_later_def slice_last10_def
      to_string_nat.simps digit_char_def)

lemma sample_entries_differ: "entry sample_ride \<noteq> entry sample_run"
  by (simp add: sample_ride_def sample_run_def Running_def Cycling_def Workout_def)

text \<open>
  C6, as the specification states it, fails: of two entries created in the same
  millisecond the lookup with the identifier of the second returns the first.
\<close>

theorem lookup_returns_other_entry:
  "find_by_id (entry_id sample_run) (map entry [sample_ride, sample_run])
     = Inr (entry sample_ride)
   \<and> entry sample_ride \<noteq> entry sample_run"
proof -
  have "\<forall>p \<in> set []. entry_id p \<noteq> entry_id sample_ride" by simp
  from find_by_id_first [OF this, of "[sample_run]"] sample_entries_differ
  show ?thesis by (simp add: sample_ids del: entry.simps entry_id.simps)
qed

text \<open>
  C6, amended. In a store of appended entries the lookup with the identifier of one of
  them returns the earliest entry that holds this identifier: the entry itself whenever
  no entry before it has the same identifier. With an identifier that no entry holds it
  returns \<^verbatim>\<open>undefined\<close>.
\<close>

theorem lookup_by_id:
  "(i < length cs \<and> (\<forall>j < i. entry_id (cs ! j) \<noteq> entry_id (cs ! i)) \<longrightarrow>
      find_by_id (entry_id (cs ! i)) (map entry cs) = Inr (entry (cs ! i)))
   \<and> ((\<forall>c \<in> set cs. entry_id c \<noteq> x) \<longrightarrow> find_by_id x (map entry cs) = Inr VUndefined)"
proof (intro conjI impI)
  assume a: "i < length cs \<and> (\<forall>j < i. entry_id (cs ! j) \<noteq> entry_id (cs ! i))"
  then have split: "cs = take i cs @ cs ! i # drop (Suc i) cs"
    by (simp add: id_take_nth_drop)
  have "\<forall>p \<in> set (take i cs). entry_id p \<noteq> entry_id (cs ! i)"
  proof
    fix p assume "p \<in> set (take i cs)"
    then obtain j where "j < length (take i cs)" "p = take i cs ! j"
      by (auto simp: in_set_conv_nth)
    with a show "entry_id p \<noteq> entry_id (cs ! i)" by simp
  qed
  from find_by_id_first [OF this, of "drop (Suc i) cs"] split
  show "find_by_id (entry_id (cs ! i)) (map entry cs) = Inr (entry (cs ! i))" by simp
next
  assume "\<forall>c \<in> set cs. entry_id c \<noteq> x"
  then show "find_by_id x (map entry cs) = Inr VUndefined" by (rule find_by_id_none)
qed

theorem lookup_by_id_witness:
  "(1::nat) < length [sample_ride, sample_ride_later, sample_run]
   \<and> entry_id sample_ride \<noteq> entry_id sample_ride_later
   \<and> find_by_id (entry_id sample_ride_later)
        (map entry [sample_ride, sample_ride_later, sample_run]) = Inr (entry sample_ride_later)
   \<and> entry_id sample_ride \<noteq> ''0000000000''
   \<and> entry_id sample_ride_later \<noteq> ''0000000000''
   \<and> entry_id sample_run \<noteq> ''0000000000''
   \<and> find_by_id ''0000000000'' (map entry [sample_ride, sample_ride_later, sample_run])
       = Inr VUndefined"
proof -
  have h1: "\<forall>j < 1. entry_id ([sample_ride, sample_ride_later, sample_run] ! j)
                \<noteq> entry_id ([sample_ride, sample_ride_later, sample_run] ! 1)"
    by (simp add: sample_ids del: entry_id.simps)
  have h2: "\<forall>c \<in> set [sample_ride, sample_ride_later, sample_run]. entry_id c \<noteq> ''0000000000''"
    by (simp add: sample_ids del: entry_id.simps)
  show ?thesis
    using lookup_by_id [of 1 "[sample_ride, sample_ride_later, sample_run]" "''0000000000''"] h1 h2
    by (simp del: entry_id.simps entry.simps)
qed

section \<open>Errors that are raised\<close>

lemma getLocalStorage_array:
  assumes "localStorage w = Some (Doc (JArr js))" and "list_all renders (map of_json js)"
  shows "getLocalStorage w
           = Inr (w\<lparr>workouts := VArr (map of_json js),
                    list_items := rev (map of_json js) @ list_items w\<rparr>)"
proof -
  have "forEach renderWorkout (map of_json js) (w\<lparr>workouts := VArr (map of_json js)\<rparr>)
      = Inr (w\<lparr>workouts := VArr (map of_json js),
               list_items := rev (map of_json js) @ list_items w\<rparr>)"
    using assms(2) by (simp add: forEach_renderWorkout_renders)
  with assms(1) show ?thesis by (simp add: getLocalStorage_def)
qed

lemma sample_json_renders: "list_all renders (map of_json sample_json)"
  by (simp add: sample_json_def renders_def renderWorkout_def)

lemma reopen_sample_logged:
  "reopen False sample_logged = Inr sample_restored"
proof -
  have cell: "localStorage sample_logged_world = Some (Doc (JArr sample_json))"
    using sample_run_stored
    by (simp add: sample_logged_world_def setLocalStorage_def hideForm_def
        del: entry.simps JSON_stringify.simps)
  have l: "localStorage (getPosition False (page (Some (Doc (JArr sample_json)))))
             = Some (Doc (JArr sample_json))"
    by (simp add: getPosition_def page_def)
  show ?thesis
    unfolding reopen_def sample_logged_eq and_then.simps cell new_App_def
    by (simp only: getLocalStorage_array [OF l sample_json_renders])
       (simp add: sample_restored_def getPosition_def page_def)
qed

lemma find_by_id_absent:
  assumes "\<forall>x \<in> set ws. get_prop x ''id'' \<noteq> Inr (VStr i)"
  shows "find_by_id i ws = Inl TypeError \<or> find_by_id i ws = Inr VUndefined"
  using assms
proof (induction ws)
  case Nil
  then show ?case by simp
next
  case (Cons x ws)
  show ?case
  proof (cases "get_prop x ''id''")
    case (Inl e)
    then show ?thesis by (cases e; cases x) simp_all
  next
    case (Inr v)
    with Cons show ?thesis by auto
  qed
qed

lemma find_by_id_error: "find_by_id i ws = Inl e \<Longrightarrow> e = TypeError"
proof (induction ws)
  case Nil
  then show ?case by simp
next
  case (Cons x ws)
  show ?case
  proof (cases "get_prop x ''id''")
    case (Inl e')
    with Cons.prems show ?thesis by (cases x) simp_all
  next
    case (Inr v)
    with Cons show ?thesis by (simp split: if_splits)
  qed
qed

lemma moveToPopup_absent:
  assumes "workouts w = VArr ws" and "\<forall>x \<in> set ws. get_prop x ''id'' \<noteq> Inr (VStr i)"
  shows "moveToPopup (Some i) w = Inl TypeError"
  using assms(1) find_by_id_absent [OF assms(2)]
  by (cases "lmap w") (auto simp: moveToPopup_def)

lemma moveToPopup_without_map:
  assumes "lmap w = None"
  shows "moveToPopup (Some i) w = Inl TypeError"
proof (cases "workouts w")
  case (VArr ws)
  show ?thesis
  proof (cases "find_by_id i ws")
    case (Inl e)
    with find_by_id_error [OF Inl] VArr show ?thesis by (simp add: moveToPopup_def)
  next
    case (Inr x)
    with VArr assms show ?thesis by (simp add: moveToPopup_def)
  qed
qed (simp_all add: moveToPopup_def)

text \<open>
  C7, as the specification states it, fails. An entry is logged and the page opened
  again; the entry is restored to the list while the map does not exist yet, and a click
  on its list item throws a TypeError that nothing catches. On the first page, where the
  map exists, a click carrying an identifier that no entry holds throws as well.
\<close>

theorem list_click_raises:
  "and_then (reopen False sample_logged) (moveToPopup (Some ''3647200000'')) = Inl TypeError
   \<and> and_then sample_logged (moveToPopup (Some ''0000000000'')) = Inl TypeError"
proof -
  have 1: "moveToPopup (Some ''3647200000'') sample_restored = Inl TypeError"
    by (simp add: moveToPopup_def sample_restored_def sample_json_def page_def)
  have w: "workouts sample_logged_world = VArr [entry sample_run]"
    by (simp add: sample_logged_world_def setLocalStorage_def hideForm_def del: entry.simps)
  have n: "\<forall>x \<in> set [entry sample_run]. get_prop x ''id'' \<noteq> Inr (VStr ''0000000000'')"
    by (simp add: get_prop_entry_id sample_ids del: entry.simps entry_id.simps)
  have a: "and_then (reopen False sample_logged) (moveToPopup (Some ''3647200000''))
             = Inl TypeError"
    by (simp only: reopen_sample_logged and_then.simps 1)
  have b: "and_then sample_logged (moveToPopup (Some ''0000000000'')) = Inl TypeError"
    by (simp only: sample_logged_eq and_then.simps moveToPopup_absent [OF w n])
  from a b show ?thesis by (rule conjI)
qed

text \<open>
  C7, amended. A submission that fails validation is recovered locally: the alert is
  shown and nothing is thrown; a load with the key absent returns without throwing. A
  stored value that is not JSON text makes the load throw a SyntaxError, and a click on a
  list item throws a TypeError when no element of the store holds its identifier, and,
  whatever the store holds, when the map does not exist; the program catches neither.
\<close>

theorem errors_recovered_or_raised:
  "(mapEvent w = Some ll \<and> (inputType f = ''running'' \<or> inputType f = ''cycling'')
      \<and> spec_invalid f \<longrightarrow>
      newWorkout f d now w = Inr (alert ''Inputs have to be positive numbers!'' w))
   \<and> (localStorage w = None \<longrightarrow> getLocalStorage w = Inr w)
   \<and> (localStorage w = Some Malformed \<longrightarrow> getLocalStorage w = Inl SyntaxError)
   \<and> (workouts w = VArr ws \<and> (\<forall>x \<in> set ws. get_prop x ''id'' \<noteq> Inr (VStr i)) \<longrightarrow>
        moveToPopup (Some i) w = Inl TypeError)
   \<and> (lmap w = None \<longrightarrow> moveToPopup (Some i) w = Inl TypeError)"
proof (intro conjI impI)
  assume "mapEvent w = Some ll \<and> (inputType f = ''running'' \<or> inputType f = ''cycling'')
      \<and> spec_invalid f"
  then show "newWorkout f d now w = Inr (alert ''Inputs have to be positive numbers!'' w)"
    using newWorkout_alert_iff [of w ll f d now] by simp
next
  assume "localStorage w = None"
  then show "getLocalStorage w = Inr w" by (simp add: getLocalStorage_def)
next
  assume "localStorage w = Some Malformed"
  then show "getLocalStorage w = Inl SyntaxError" by (simp add: getLocalStorage_def)
next
  assume "workouts w = VArr ws \<and> (\<forall>x \<in> set ws. get_prop x ''id'' \<noteq> Inr (VStr i))"
  then show "moveToPopup (Some i) w = Inl TypeError"
    using moveToPopup_absent [of w ws i] by simp
next
  assume "lmap w = None"
  then show "moveToPopup (Some i) w = Inl TypeError"
    by (rule moveToPopup_without_map)
qed

theorem errors_recovered_or_raised_witness:
  "mapEvent sample_world = Some sample_click
   \<and> inputType (sample_cycling\<lparr>inputDuration := Fin (- 1)\<rparr>) = ''cycling''
   \<and> spec_invalid (sample_cycling\<lparr>inputDuration := Fin (- 1)\<rparr>)
   \<and> newWorkout (sample_cycling\<lparr>inputDuration := Fin (- 1)\<rparr>) sample_date 1793647200000
         sample_world
       = Inr (alert ''Inputs have to be positive numbers!'' sample_world)
   \<and> localStorage (page None) = None
   \<and> getLocalStorage (page None) = Inr (page None)
   \<and> localStorage (page (Some Malformed)) = Some Malformed
   \<and> getLocalStorage (page (Some Malformed)) = Inl SyntaxError
   \<and> sample_logged = Inr sample_logged_world
   \<and> workouts sample_logged_world = VArr [entry sample_run]
   \<and> get_prop (entry sample_run) ''id'' \<noteq> Inr (VStr ''0000000000'')
   \<and> moveToPopup (Some ''0000000000'') sample_logged_world = Inl TypeError
   \<and> reopen False sample_logged = Inr sample_restored
   \<and> lmap sample_restored = None
   \<and> moveToPopup (Some ''3647200000'') sample_restored = Inl TypeError"
proof -
  have t: "inputType (sample_cycling\<lparr>inputDuration := Fin (- 1)\<rparr>) = ''cycling''"
    by (simp add: sample_cycling_def)
  have bad: "spec_invalid (sample_cycling\<lparr>inputDuration := Fin (- 1)\<rparr>)"
    by (simp add: spec_invalid_def sample_cycling_def not_finite_def le0_def)
  have w: "workouts sample_logged_world = VArr [entry sample_run]"
    by (simp add: sample_logged_world_def setLocalStorage_def hideForm_def del: entry.simps)
  have n': "get_prop (entry sample_run) ''id'' \<noteq> Inr (VStr ''0000000000'')"
    by (simp add: get_prop_entry_id sample_ids del: entry.simps entry_id.simps)
  then have n: "\<forall>x \<in> set [entry sample_run]. get_prop x ''id'' \<noteq> Inr (VStr ''0000000000'')"
    by simp
  have l: "lmap sample_restored = None"
    by (simp add: sample_restored_def page_def)
  have p: "localStorage (page None) = None" "localStorage (page (Some Malformed)) = Some Malformed"
    by (simp_all add: page_def)
  note inst1 = errors_recovered_or_raised
    [of sample_world sample_click "sample_cycling\<lparr>inputDuration := Fin (- 1)\<rparr>"
       sample_date 1793647200000 "[]" "''0000000000''"]
  note inst2 = errors_recovered_or_raised
    [of "page None" sample_click sample_cycling sample_date 1793647200000 "[]"
       "''0000000000''"]
  note inst3 = errors_recovered_or_raised
    [of "page (Some Malformed)" sample_click sample_cycling sample_date 1793647200000
       "[]" "''0000000000''"]
  note inst4 = errors_recovered_or_raised
    [of sample_logged_world sample_click sample_cycling sample_date 1793647200000
       "[entry sample_run]" "''0000000000''"]
  note inst5 = errors_recovered_or_raised
    [of sample_restored sample_click sample_cycling sample_date 1793647200000 "[]"
       "''3647200000''"]
  have 1: "newWorkout (sample_cycling\<lparr>inputDuration := Fin (- 1)\<rparr>) sample_date 1793647200000
         sample_world = Inr (alert ''Inputs have to be positive numbers!'' sample_world)"
    using inst1 t bad sample_world_simps(1) by blast
  have 2: "getLocalStorage (page None) = Inr (page None)"
    using inst2 p(1) by blast
  have 3: "getLocalStorage (page (Some Malformed)) = Inl SyntaxError"
    using inst3 p(2) by blast
  have 4: "moveToPopup (Some ''0000000000'') sample_logged_world = Inl TypeError"
    using inst4 w n by blast
  have 5: "moveToPopup (Some ''3647200000'') sample_restored = Inl TypeError"
    using inst5 l by blast
  show ?thesis
    using t bad 1 2 3 4 5 p l w n' sample_world_simps(1) sample_logged_eq reopen_sample_logged
    by (simp del: entry.simps entry_id.simps)
qed

section \<open>Reset\<close>

text \<open>
  C8. Whatever was stored before, \<^verbatim>\<open>reset\<close> removes the key and the page that comes up
  has an empty entry list; a further load on it finds nothing and leaves the list empty.
\<close>

theorem reset_clears_store:
  "reset g w = Inr (getPosition g (page None))
   \<and> localStorage (removeItem w) = None
   \<and> localStorage (getPosition g (page None)) = None
   \<and> workouts (getPosition g (page None)) = VArr []
   \<and> list_items (getPosition g (page None)) = []
   \<and> getLocalStorage (getPosition g (page None)) = Inr (getPosition g (page None))"
  by (simp add: reset_def removeItem_def new_App_def getLocalStorage_def getPosition_def
      page_def alert_def)

theorem reset_clears_store_witness:
  "localStorage sample_restored = Some (Doc (JArr sample_json))
   \<and> reset False sample_restored = Inr (page None)
   \<and> localStorage (page None) = None
   \<and> workouts (page None) = VArr []
   \<and> getLocalStorage (page None) = Inr (page None)"
  using reset_clears_store [of False sample_restored]
  by (simp add: getPosition_def) (simp add: sample_restored_def page_def)

section \<open>Identifiers\<close>

text \<open>
  C10. The identifier of an entry is made of the last ten decimal digits of the
  millisecond clock read at its creation (of all its digits, should there be fewer than
  ten). Two entries created in the same millisecond have the same identifier, and the
  lookup with it returns the one that was appended first.
\<close>

theorem ids_from_timestamp:
  "get_prop (entry c) ''id'' = Inr (VStr (slice_last10 (to_string_nat (created_at c))))
   \<and> entry_id c
       = low_digits (min 10 (length (to_string_nat (created_at c)))) (created_at c)
   \<and> (10 ^ 9 \<le> created_at c \<longrightarrow> entry_id c = low_digits 10 (created_at c))
   \<and> (created_at c = created_at c' \<longrightarrow>
        get_prop (entry c) ''id'' = get_prop (entry c') ''id'')
   \<and> (created_at c = created_at c' \<and> (\<forall>p \<in> set pre. entry_id p \<noteq> entry_id c) \<longrightarrow>
        find_by_id (entry_id c') (map entry (pre @ c # mid @ c' # post)) = Inr (entry c))"
proof (intro conjI impI)
  show "get_prop (entry c) ''id'' = Inr (VStr (slice_last10 (to_string_nat (created_at c))))"
    by (simp add: get_prop_entry_id)
next
  let ?s = "to_string_nat (created_at c)"
  have "drop (length ?s - min 10 (length ?s)) ?s = low_digits (min 10 (length ?s)) (created_at c)"
    by (rule drop_low_digits) simp
  moreover have "length ?s - min 10 (length ?s) = length ?s - 10" by simp
  ultimately show "entry_id c = low_digits (min 10 (length ?s)) (created_at c)"
    by (simp add: slice_last10_def)
next
  assume "10 ^ 9 \<le> created_at c"
  then show "entry_id c = low_digits 10 (created_at c)"
    by (simp add: id_low_digits)
next
  assume "created_at c = created_at c'"
  then show "get_prop (entry c) ''id'' = get_prop (entry c') ''id''"
    by (simp add: get_prop_entry_id)
next
  assume a: "created_at c = created_at c' \<and> (\<forall>p \<in> set pre. entry_id p \<noteq> entry_id c)"
  then have e: "entry_id c' = entry_id c" by simp
  from a have "\<forall>p \<in> set pre. entry_id p \<noteq> entry_id c" by blast
  from find_by_id_first [OF this, of "mid @ c' # post"]
  show "find_by_id (entry_id c') (map entry (pre @ c # mid @ c' # post)) = Inr (entry c)"
    by (simp only: e)
qed

theorem ids_from_timestamp_witness:
  "get_prop (entry sample_ride) ''id'' = Inr (VStr ''3647200000'')
   \<and> (10::nat) ^ 9 \<le> created_at sample_ride
   \<and> low_digits 10 (created_at sample_ride) = ''3647200000''
   \<and> created_at sample_ride = created_at sample_run
   \<and> get_prop (entry sample_run) ''id'' = Inr (VStr ''3647200000'')
   \<and> entry_id sample_ride_later \<noteq> entry_id sample_ride
   \<and> find_by_id ''3647200000'' (map entry [sample_ride_later, sample_ride, sample_run])
       = Inr (entry sample_ride)"
proof -
  have t: "created_at sample_ride = created_at sample_run"
    by (simp add: sample_ride_def sample_run_def)
  have g: "(10::nat) ^ 9 \<le> created_at sample_ride"
    by (simp add: sample_ride_def)
  have n: "\<forall>p \<in> set [sample_ride_later]. entry_id p \<noteq> entry_id sample_ride"
    by (simp add: sample_ids del: entry_id.simps)
  note inst = ids_from_timestamp [of sample_ride sample_run "[sample_ride_later]" "[]" "[]"]
  from inst g have 1: "entry_id sample_ride = low_digits 10 (created_at sample_ride)" by blast
  from inst t have 2: "get_prop (entry sample_ride) ''id'' = get_prop (entry sample_run) ''id''"
    by blast
  from inst t n have 3: "find_by_id (entry_id sample_run)
      (map entry ([sample_ride_later] @ sample_ride # [] @ sample_run # [])) = Inr (entry sample_ride)"
    by blast
  from inst have 4: "get_prop (entry sample_ride) ''id''
      = Inr (VStr (slice_last10 (to_string_nat (created_at sample_ride))))"
    by blast
  have 5: "get_prop (entry sample_ride) ''id'' = Inr (VStr ''3647200000'')"
    using sample_ids(2) by (simp only: get_prop_entry_id)
  show ?thesis
    using 1 2 3 5 t g n sample_ids
    by (simp del: entry.simps entry_id.simps)
qed

end
